theory Spec2Isabelle
  imports Complex_Main "HOL-Library.Sublist"
begin


section \<open>Data model\<close>

text \<open>
  A Python \<^verbatim>\<open>str\<close> is a sequence of Unicode code points; it is modelled as a list of
  natural numbers. ASCII literals of the source are written with \<open>ascii\<close>; the Cyrillic
  keyword tables are written as code points. A Python \<^verbatim>\<open>float\<close> is modelled as a real
  number, a Python \<^verbatim>\<open>int\<close> as an integer.
\<close>

type_synonym pystr = "nat list"

definition ascii :: "string \<Rightarrow> pystr" where
  "ascii s = map of_char s"

text \<open>
  The candidate dictionary built by the two extractors (\<^verbatim>\<open>cards.append({...})\<close> in
  \<^verbatim>\<open>scrapers/cian.py\<close>, \<^verbatim>\<open>out.append({...})\<close> in \<^verbatim>\<open>scrapers/avito.py\<close>). A field is
  \<open>None\<close> when the key is missing or holds Python's \<^verbatim>\<open>None\<close>; for the two provisional tags
  \<open>None\<close> means that the key is not in the dictionary (they always hold a value when present,
  and \<^verbatim>\<open>pop\<close> removes them). The key \<^verbatim>\<open>source\<close> is read with \<^verbatim>\<open>payload["source"]\<close> and is
  always present.
\<close>

record candidate =
  source :: pystr
  external_id :: "pystr option"
  title :: "pystr option"
  address :: "pystr option"
  rooms :: "int option"
  area_m2 :: "real option"
  floor_c :: "int option"
  floors_total :: "int option"
  price_rub :: "int option"
  price_per_m2 :: "real option"
  url :: "pystr option"
  is_room_tag :: "bool option"
  rent_period_tag :: "string option"

text \<open>
  The rows of \<^verbatim>\<open>db/models.py\<close>. The timestamps \<^verbatim>\<open>created_at\<close>, \<^verbatim>\<open>updated_at\<close> and \<^verbatim>\<open>ts\<close> and
  the snapshot's own key are assigned by the database server and are not part of the
  model; \<^verbatim>\<open>phone_hash\<close> is never written by the pipeline and stays NULL.
\<close>

record listing =
  l_id :: nat
  l_source :: pystr
  l_external_id :: "pystr option"
  l_title :: "pystr option"
  l_address :: "pystr option"
  l_rooms :: "int option"
  l_area_m2 :: "real option"
  l_floor :: "int option"
  l_floors_total :: "int option"
  l_price_rub :: "int option"
  l_price_per_m2 :: "real option"
  l_url :: "pystr option"
  l_phone_hash :: "pystr option"
  l_active :: bool

record price_snapshot =
  s_listing_id :: nat
  s_price_rub :: "int option"
  s_price_per_m2 :: "real option"

text \<open>
  The session seen by \<^verbatim>\<open>upsert_listing\<close>: the rows of both tables in insertion order and
  the next value of the \<^verbatim>\<open>listings.id\<close> sequence.
\<close>

record store =
  listings :: "listing list"
  snapshots :: "price_snapshot list"
  next_id :: nat

datatype error = MultipleResultsFound | TypeError | FetchError | TransportError

section \<open>Reconciliation: \<^verbatim>\<open>scheduler/jobs.py\<close>\<close>

text \<open>Python truthiness of an optional number: \<^verbatim>\<open>None\<close> and zero are false.\<close>

definition truthy_int :: "int option \<Rightarrow> bool" where
  "truthy_int v = (case v of None \<Rightarrow> False | Some n \<Rightarrow> n \<noteq> 0)"

definition truthy_real :: "real option \<Rightarrow> bool" where
  "truthy_real v = (case v of None \<Rightarrow> False | Some a \<Rightarrow> a \<noteq> 0)"

text \<open>
  \<^verbatim>\<open>select(Listing).where(Listing.source == src, Listing.external_id == ext)\<close>; a comparison
  with \<^verbatim>\<open>None\<close> is rendered as \<^verbatim>\<open>IS NULL\<close>, so an absent identifier selects the rows
  without one.
\<close>

definition select_listing :: "store \<Rightarrow> pystr \<Rightarrow> pystr option \<Rightarrow> listing list" where
  "select_listing db src ext =
     filter (\<lambda>l. l_source l = src \<and> l_external_id l = ext) (listings db)"

text \<open>\<^verbatim>\<open>scalar_one_or_none()\<close>: no row, the one row, or \<^verbatim>\<open>MultipleResultsFound\<close>.\<close>

definition scalar_one_or_none :: "listing list \<Rightarrow> error + listing option" where
  "scalar_one_or_none rows =
     (case rows of [] \<Rightarrow> Inr None | [r] \<Rightarrow> Inr (Some r) | _ \<Rightarrow> Inl MultipleResultsFound)"

text \<open>
  \<^verbatim>\<open>Listing(**payload)\<close>: every key becomes a column; a key that is no column (a provisional
  tag that was not popped) raises \<^verbatim>\<open>TypeError\<close>. \<^verbatim>\<open>active\<close> takes its default.
\<close>

definition new_listing :: "nat \<Rightarrow> candidate \<Rightarrow> listing" where
  "new_listing i p =
     \<lparr> l_id = i, l_source = source p, l_external_id = external_id p, l_title = title p,
       l_address = address p, l_rooms = rooms p, l_area_m2 = area_m2 p, l_floor = floor_c p,
       l_floors_total = floors_total p, l_price_rub = price_rub p,
       l_price_per_m2 = price_per_m2 p, l_url = url p, l_phone_hash = None,
       l_active = True \<rparr>"

definition snapshot_of :: "listing \<Rightarrow> price_snapshot" where
  "snapshot_of obj =
     \<lparr> s_listing_id = l_id obj, s_price_rub = l_price_rub obj,
       s_price_per_m2 = l_price_per_m2 obj \<rparr>"

text \<open>The branch \<^verbatim>\<open>if obj is None\<close> of \<^verbatim>\<open>upsert_listing\<close>.\<close>

definition insert_branch :: "store \<Rightarrow> candidate \<Rightarrow> error + store" where
  "insert_branch db p =
     (if \<not> (is_room_tag p = None \<and> rent_period_tag p = None) then Inl TypeError
      else
        let obj0 = new_listing (next_id db) p;
            obj = (if truthy_real (area_m2 p) \<and> truthy_int (price_rub p)
                   then obj0\<lparr>l_price_per_m2 := Some (real_of_int (the (price_rub p)) / the (area_m2 p))\<rparr>
                   else obj0)
        in Inr \<lparr> listings = listings db @ [obj],
                 snapshots = snapshots db @ [snapshot_of obj],
                 next_id = Suc (next_id db) \<rparr>)"

text \<open>
  \<^verbatim>\<open>payload.get("area_m2") or obj.area_m2 or 1\<close>: the first operand that is true, else 1.
\<close>

definition area_divisor :: "candidate \<Rightarrow> listing \<Rightarrow> real" where
  "area_divisor p obj =
     (if truthy_real (area_m2 p) then the (area_m2 p)
      else if truthy_real (l_area_m2 obj) then the (l_area_m2 obj)
      else 1)"

text \<open>
  The \<^verbatim>\<open>else\<close> branch: the attributes of the loaded row are assigned in place; the row is
  the one with the primary key of \<open>obj\<close>.
\<close>

definition update_branch :: "store \<Rightarrow> candidate \<Rightarrow> listing \<Rightarrow> store" where
  "update_branch db p obj =
     (let new_price = price_rub p in
      if truthy_int new_price \<and> new_price \<noteq> l_price_rub obj then
        let obj' = obj\<lparr> l_price_rub := new_price,
                        l_price_per_m2 := Some (real_of_int (the new_price) / area_divisor p obj) \<rparr>
        in db\<lparr> listings := map (\<lambda>l. if l_id l = l_id obj then obj' else l) (listings db),
                snapshots := snapshots db @ [snapshot_of obj'] \<rparr>
      else db)"

definition upsert_listing :: "store \<Rightarrow> candidate \<Rightarrow> error + store" where
  "upsert_listing db p =
     (case scalar_one_or_none (select_listing db (source p) (external_id p)) of
        Inl e \<Rightarrow> Inl e
      | Inr None \<Rightarrow> insert_branch db p
      | Inr (Some obj) \<Rightarrow> Inr (update_branch db p obj))"

definition empty_store :: store where
  "empty_store = \<lparr> listings = [], snapshots = [], next_id = 1 \<rparr>"

section \<open>Configuration: \<^verbatim>\<open>core/config.py\<close>\<close>

text \<open>The settings the pipeline reads.\<close>

record settings =
  cian_deal_type :: pystr
  cian_min_area_m2 :: real
  cian_max_price_rub :: "int option"
  cian_rent_long_only :: bool
  cian_exclude_rooms :: bool
  cian_max_pages :: int
  cian_rate_limit_ms :: int

section \<open>Normalising and filtering: the tails of \<^verbatim>\<open>fetch_cian\<close> and \<^verbatim>\<open>fetch_avito\<close>\<close>

definition dedup_key :: "candidate \<Rightarrow> pystr option \<times> pystr option" where
  "dedup_key it = (external_id it, url it)"

text \<open>
  The loop over \<^verbatim>\<open>out\<close> with the set \<^verbatim>\<open>seen_ids\<close>; the kept items are appended to
  \<^verbatim>\<open>deduped\<close> in the order in which they are met.
\<close>

fun dedup_loop :: "(pystr option \<times> pystr option) set \<Rightarrow> candidate list \<Rightarrow> candidate list" where
  "dedup_loop seen [] = []"
| "dedup_loop seen (it # its) =
     (if dedup_key it \<in> seen then dedup_loop seen its
      else it # dedup_loop (insert (dedup_key it) seen) its)"

definition dedup :: "candidate list \<Rightarrow> candidate list" where
  "dedup out = dedup_loop {} out"

definition not_daily :: "candidate \<Rightarrow> bool" where
  "not_daily it = (rent_period_tag it \<noteq> Some ''daily'')"

text \<open>\<^verbatim>\<open>not it.get("_is_room")\<close>: a missing key gives \<^verbatim>\<open>None\<close>, which is false.\<close>

definition not_is_room :: "candidate \<Rightarrow> bool" where
  "not_is_room it = (case is_room_tag it of None \<Rightarrow> True | Some b \<Rightarrow> \<not> b)"

text \<open>\<^verbatim>\<open>it.pop("_is_room", None); it.pop("_rent_period", None)\<close>, in place.\<close>

definition pop_tags :: "candidate \<Rightarrow> candidate" where
  "pop_tags it = it\<lparr> is_room_tag := None, rent_period_tag := None \<rparr>"

definition area_ok :: "settings \<Rightarrow> candidate \<Rightarrow> bool" where
  "area_ok cfg it = (case area_m2 it of None \<Rightarrow> False | Some a \<Rightarrow> a \<ge> cian_min_area_m2 cfg)"

subsection \<open>CIAN\<close>

definition cian_long_rent_filter :: "settings \<Rightarrow> candidate list \<Rightarrow> candidate list" where
  "cian_long_rent_filter cfg deduped =
     (if cian_deal_type cfg = ascii ''rent'' \<and> cian_rent_long_only cfg
      then filter not_daily deduped else deduped)"

definition rooms_filter :: "settings \<Rightarrow> candidate list \<Rightarrow> candidate list" where
  "rooms_filter cfg deduped =
     (if cian_exclude_rooms cfg then filter not_is_room deduped else deduped)"

definition cian_price_ok :: "settings \<Rightarrow> candidate \<Rightarrow> bool" where
  "cian_price_ok cfg it =
     (case cian_max_price_rub cfg of
        None \<Rightarrow> True
      | Some mx \<Rightarrow> (case price_rub it of None \<Rightarrow> False | Some p \<Rightarrow> p \<le> mx))"

definition cian_numeric_filter :: "settings \<Rightarrow> candidate list \<Rightarrow> candidate list" where
  "cian_numeric_filter cfg deduped = filter (\<lambda>it. area_ok cfg it \<and> cian_price_ok cfg it) deduped"

text \<open>
  The statements of \<^verbatim>\<open>fetch_cian\<close> after the page loop, in the order of the source: the
  dedup, the long-rent filter, the two \<^verbatim>\<open>pop\<close>s on every item of \<^verbatim>\<open>deduped\<close>, the rooms
  filter, the filter on area and price.
\<close>

definition cian_normalize :: "settings \<Rightarrow> candidate list \<Rightarrow> candidate list" where
  "cian_normalize cfg out =
     cian_numeric_filter cfg
       (rooms_filter cfg (map pop_tags (cian_long_rent_filter cfg (dedup out))))"

subsection \<open>Avito\<close>

definition avito_long_rent_filter :: "settings \<Rightarrow> candidate list \<Rightarrow> candidate list" where
  "avito_long_rent_filter cfg deduped =
     (if cian_rent_long_only cfg then filter not_daily deduped else deduped)"

text \<open>\<^verbatim>\<open>settings.cian_max_price_rub or 10**12\<close>.\<close>

definition avito_price_cap :: "settings \<Rightarrow> int" where
  "avito_price_cap cfg = (if truthy_int (cian_max_price_rub cfg) then the (cian_max_price_rub cfg) else 10 ^ 12)"

definition avito_price_ok :: "settings \<Rightarrow> candidate \<Rightarrow> bool" where
  "avito_price_ok cfg it = (case price_rub it of None \<Rightarrow> False | Some p \<Rightarrow> p \<le> avito_price_cap cfg)"

definition avito_numeric_filter :: "settings \<Rightarrow> candidate list \<Rightarrow> candidate list" where
  "avito_numeric_filter cfg deduped = filter (\<lambda>it. area_ok cfg it \<and> avito_price_ok cfg it) deduped"

text \<open>
  The statements of \<^verbatim>\<open>fetch_avito\<close> after the page loop: the dedup, the long-rent filter,
  the rooms filter, the filter on area and price, and the two \<^verbatim>\<open>pop\<close>s on the survivors.
\<close>

definition avito_filtered :: "settings \<Rightarrow> candidate list \<Rightarrow> candidate list" where
  "avito_filtered cfg items =
     avito_numeric_filter cfg (rooms_filter cfg (avito_long_rent_filter cfg (dedup items)))"

definition avito_normalize :: "settings \<Rightarrow> candidate list \<Rightarrow> candidate list" where
  "avito_normalize cfg items = map pop_tags (avito_filtered cfg items)"

section \<open>Extraction: \<^verbatim>\<open>scrapers/cian.py\<close> and \<^verbatim>\<open>scrapers/avito.py\<close>\<close>

text \<open>
  The functions of Python's library that the extractors call are parameters of the model:
  \<^verbatim>\<open>str.lower\<close>, and the regular-expression searches of \<^verbatim>\<open>re\<close> together with the
  conversions \<^verbatim>\<open>int\<close> and \<^verbatim>\<open>float\<close> applied to what they match. Every theorem below holds
  for all of them.
\<close>

record lib =
  str_lower :: "pystr \<Rightarrow> pystr"
  digits_to_int :: "pystr \<Rightarrow> int option"
  re_room_word :: "pystr \<Rightarrow> bool"
  cian_re_external_id :: "pystr \<Rightarrow> pystr option"
  cian_re_area :: "pystr \<Rightarrow> real option"
  cian_re_floors :: "pystr \<Rightarrow> (int \<times> int) option"
  cian_re_rooms :: "pystr \<Rightarrow> int option"
  avito_re_external_id :: "pystr \<Rightarrow> pystr option"
  avito_re_area :: "pystr \<Rightarrow> real option"
  avito_re_floors :: "pystr \<Rightarrow> (int \<times> int) option"
  avito_re_stud :: "pystr \<Rightarrow> bool"
  avito_re_rooms :: "pystr \<Rightarrow> int option"

text \<open>Python's \<^verbatim>\<open>m in low\<close> on strings: \<open>m\<close> occurs in \<open>low\<close> as a contiguous block.\<close>

fun py_in :: "pystr \<Rightarrow> pystr \<Rightarrow> bool" where
  "py_in m [] = (m = [])"
| "py_in m (c # cs) = (prefix m (c # cs) \<or> py_in m cs)"

definition any_in :: "pystr list \<Rightarrow> pystr \<Rightarrow> bool" where
  "any_in markers low = list_ex (\<lambda>m. py_in m low) markers"

definition or_empty :: "pystr option \<Rightarrow> pystr" where
  "or_empty s = (case s of None \<Rightarrow> [] | Some t \<Rightarrow> t)"

text \<open>\<^verbatim>\<open>if not txt: return None\<close>, then \<^verbatim>\<open>re.sub\<close> and \<^verbatim>\<open>int\<close>.\<close>

definition parse_int :: "lib \<Rightarrow> pystr option \<Rightarrow> int option" where
  "parse_int L txt = (case txt of None \<Rightarrow> None | Some t \<Rightarrow> if t = [] then None else digits_to_int L t)"

text \<open>\<^verbatim>\<open>_price_per_m2\<close>, the same in both files.\<close>

definition price_per_m2_of :: "int option \<Rightarrow> real option \<Rightarrow> real option" where
  "price_per_m2_of price area =
     (if truthy_int price \<and> truthy_real area \<and> the area > 0
      then Some (real_of_int (the price) / the area) else None)"

subsection \<open>CIAN\<close>

text \<open>
  The marker tables of \<^verbatim>\<open>_detect_rent_period\<close> in \<^verbatim>\<open>cian.py\<close>, as code points. The daily
  markers read (transliterated) posutoch, v sutki, za sutki, /sut, sutki, v den', /den',
  za den'; the monthly ones v mesyats, v mes, /mes, mes., mesyats.
\<close>

definition cian_daily_markers :: "pystr list" where
  "cian_daily_markers =
     [[1087, 1086, 1089, 1091, 1090, 1086, 1095],
      [1074, 32, 1089, 1091, 1090, 1082, 1080],
      [1079, 1072, 32, 1089, 1091, 1090, 1082, 1080],
      [47, 1089, 1091, 1090],
      [1089, 1091, 1090, 1082, 1080],
      [1074, 32, 1076, 1077, 1085, 1100],
      [47, 1076, 1077, 1085, 1100],
      [1079, 1072, 32, 1076, 1077, 1085, 1100]]"

definition monthly_markers :: "pystr list" where
  "monthly_markers =
     [[1074, 32, 1084, 1077, 1089, 1103, 1094],
      [1074, 32, 1084, 1077, 1089],
      [47, 1084, 1077, 1089],
      [1084, 1077, 1089, 46],
      [1084, 1077, 1089, 1103, 1094]]"

definition cian_detect_rent_period :: "lib \<Rightarrow> pystr \<Rightarrow> string" where
  "cian_detect_rent_period L txt =
     (let low = str_lower L txt in
      if any_in cian_daily_markers low then ''daily''
      else if any_in monthly_markers low then ''monthly''
      else ''unknown'')"

text \<open>
  The words of \<^verbatim>\<open>_is_room_listing\<close>: kvartira, studiya; komnata v, komn. v, v podseleni;
  sdayotsya komnata, sdaetsya komnata; and, for Avito, podselenie and komnatn.
\<close>

definition kw_kvartira :: pystr where "kw_kvartira = [1082, 1074, 1072, 1088, 1090, 1080, 1088, 1072]"
definition kw_studiya :: pystr where "kw_studiya = [1089, 1090, 1091, 1076, 1080, 1103]"
definition kw_komnata_v :: pystr where "kw_komnata_v = [1082, 1086, 1084, 1085, 1072, 1090, 1072, 32, 1074]"
definition kw_komn_v :: pystr where "kw_komn_v = [1082, 1086, 1084, 1085, 46, 32, 1074]"
definition kw_v_podseleni :: pystr where "kw_v_podseleni = [1074, 32, 1087, 1086, 1076, 1089, 1077, 1083, 1077, 1085, 1080]"
definition kw_sdayotsya_komnata :: pystr where "kw_sdayotsya_komnata = [1089, 1076, 1072, 1105, 1090, 1089, 1103, 32, 1082, 1086, 1084, 1085, 1072, 1090, 1072]"
definition kw_sdaetsya_komnata :: pystr where "kw_sdaetsya_komnata = [1089, 1076, 1072, 1077, 1090, 1089, 1103, 32, 1082, 1086, 1084, 1085, 1072, 1090, 1072]"
definition kw_podselenie :: pystr where "kw_podselenie = [1087, 1086, 1076, 1089, 1077, 1083, 1077, 1085, 1080, 1077]"
definition kw_komnatn :: pystr where "kw_komnatn = [1082, 1086, 1084, 1085, 1072, 1090, 1085]"

text \<open>
  \<^verbatim>\<open>_is_room_listing\<close> of \<^verbatim>\<open>cian.py\<close>; \<open>re_room_word\<close> is the search for the word
  komnata, komnate or komnaty between word boundaries.
\<close>

definition cian_is_room_listing :: "lib \<Rightarrow> pystr option \<Rightarrow> pystr option \<Rightarrow> bool" where
  "cian_is_room_listing L ttl summary_txt =
     (let t = str_lower L (or_empty ttl @ ascii '' '' @ or_empty summary_txt) in
      if py_in kw_kvartira t \<or> py_in kw_studiya t then False
      else if re_room_word L t then True
      else if py_in kw_komnata_v t \<or> py_in kw_komn_v t \<or> py_in kw_v_podseleni t then True
      else if py_in kw_sdayotsya_komnata t \<or> py_in kw_sdaetsya_komnata t then True
      else False)"

text \<open>
  What the selectors of \<^verbatim>\<open>_parse_cards\<close> read from one card node: the stripped text of
  the first title, address and price node that exists, the \<^verbatim>\<open>href\<close> of the first link, the
  texts of the \<^verbatim>\<open>OfferSummary\<close> nodes joined by blanks, and the text of the whole card.
\<close>

record cian_card =
  title_node :: "pystr option"
  link_href :: "pystr option"
  addr_node :: "pystr option"
  offer_summary :: pystr
  card_text :: pystr
  price_node :: "pystr option"

definition cian_url :: "cian_card \<Rightarrow> pystr option" where
  "cian_url nd =
     (case link_href nd of
        None \<Rightarrow> None
      | Some u \<Rightarrow> if u \<noteq> [] \<and> prefix (ascii ''//'') u then Some (ascii ''https:'' @ u) else Some u)"

definition cian_summary_txt :: "cian_card \<Rightarrow> pystr" where
  "cian_summary_txt nd = (if offer_summary nd = [] then card_text nd else offer_summary nd)"

text \<open>
  \<^verbatim>\<open>" ".join([price_text or "", title or "", summary_txt or "", card.text(strip=True) or ""])\<close>.
\<close>

definition cian_context_txt :: "cian_card \<Rightarrow> pystr" where
  "cian_context_txt nd =
     or_empty (price_node nd) @ ascii '' '' @ or_empty (title_node nd) @ ascii '' '' @
     cian_summary_txt nd @ ascii '' '' @ card_text nd"

text \<open>The dictionary appended to \<^verbatim>\<open>cards\<close> for one card.\<close>

definition cian_card_candidate :: "lib \<Rightarrow> cian_card \<Rightarrow> candidate" where
  "cian_card_candidate L nd =
     (let url0 = cian_url nd;
          summary_txt = cian_summary_txt nd;
          area = cian_re_area L summary_txt;
          fl = cian_re_floors L summary_txt;
          price_text = or_empty (price_node nd);
          price = (if price_text = [] then None else parse_int L (Some price_text))
      in \<lparr> source = ascii ''cian'',
           external_id = (case url0 of None \<Rightarrow> None
                          | Some u \<Rightarrow> if u = [] then None else cian_re_external_id L u),
           title = title_node nd,
           address = addr_node nd,
           rooms = cian_re_rooms L (or_empty (title_node nd) @ ascii '' '' @ summary_txt),
           area_m2 = area,
           floor_c = map_option fst fl,
           floors_total = map_option snd fl,
           price_rub = price,
           price_per_m2 = price_per_m2_of price area,
           url = url0,
           is_room_tag = Some (cian_is_room_listing L (title_node nd) (Some summary_txt)),
           rent_period_tag = Some (cian_detect_rent_period L (cian_context_txt nd)) \<rparr>)"

text \<open>\<^verbatim>\<open>c.get("url")\<close> as a condition: the key holds a string that is not empty.\<close>

definition has_url :: "candidate \<Rightarrow> bool" where
  "has_url c = (case url c of None \<Rightarrow> False | Some u \<Rightarrow> u \<noteq> [])"

text \<open>
  \<^verbatim>\<open>_parse_cards\<close> of \<^verbatim>\<open>cian.py\<close> on the card nodes that the selectors find in a page
  (after the removal of repeated nodes): one dictionary per card, and
  \<^verbatim>\<open>return [c for c in cards if c.get("url")]\<close>.
\<close>

definition cian_parse_cards :: "lib \<Rightarrow> cian_card list \<Rightarrow> candidate list" where
  "cian_parse_cards L nodes = filter has_url (map (cian_card_candidate L) nodes)"

subsection \<open>Avito\<close>

text \<open>
  \<^verbatim>\<open>_detect_rent_period\<close> of \<^verbatim>\<open>avito.py\<close>; its daily table lacks the first marker of
  CIAN's. The function is defined in the file and called nowhere.
\<close>

definition avito_daily_markers :: "pystr list" where
  "avito_daily_markers =
     [[1074, 32, 1089, 1091, 1090, 1082, 1080],
      [1079, 1072, 32, 1089, 1091, 1090, 1082, 1080],
      [47, 1089, 1091, 1090],
      [1089, 1091, 1090, 1082, 1080],
      [1074, 32, 1076, 1077, 1085, 1100],
      [47, 1076, 1077, 1085, 1100],
      [1079, 1072, 32, 1076, 1077, 1085, 1100]]"

definition avito_detect_rent_period :: "lib \<Rightarrow> pystr \<Rightarrow> string" where
  "avito_detect_rent_period L txt =
     (let low = str_lower L txt in
      if any_in avito_daily_markers low then ''daily''
      else if any_in monthly_markers low then ''monthly''
      else ''unknown'')"

definition avito_is_room_listing :: "lib \<Rightarrow> pystr option \<Rightarrow> pystr option \<Rightarrow> bool" where
  "avito_is_room_listing L ttl ctx =
     (let t = str_lower L (or_empty ttl @ ascii '' '' @ or_empty ctx) in
      if py_in kw_kvartira t \<or> py_in kw_studiya t then False
      else if py_in kw_komnata_v t \<or> py_in kw_komn_v t \<or> py_in kw_v_podseleni t
              \<or> py_in kw_podselenie t then True
      else if re_room_word L t \<and> \<not> py_in kw_komnatn t then True
      else False)"

text \<open>
  One entry \<^verbatim>\<open>off\<close> of a product's \<^verbatim>\<open>offers\<close> list in a JSON-LD block: the values of its
  keys \<^verbatim>\<open>url\<close>, \<^verbatim>\<open>name\<close> and \<^verbatim>\<open>price\<close>, strings or absent.
\<close>

record offer =
  off_url :: "pystr option"
  off_name :: "pystr option"
  off_price :: "pystr option"

text \<open>
  The body of the loop over the offers in \<^verbatim>\<open>_parse_from_jsonld\<close>: \<open>None\<close> is
  \<^verbatim>\<open>continue\<close>. The rooms are those of the digit pattern when it matches, else 0 when the
  studio pattern matches. The tag \<^verbatim>\<open>_rent_period\<close> is the literal \<^verbatim>\<open>"monthly"\<close>.
\<close>

definition avito_offer_candidate :: "lib \<Rightarrow> offer \<Rightarrow> candidate option" where
  "avito_offer_candidate L off =
     (let price = parse_int L (off_price off) in
      if or_empty (off_url off) = [] \<or> or_empty (off_name off) = [] then None
      else
        let u = or_empty (off_url off);
            ctx = or_empty (off_name off);
            area = avito_re_area L ctx;
            fl = avito_re_floors L ctx
        in Some \<lparr> source = ascii ''avito'',
                  external_id = avito_re_external_id L u,
                  title = off_name off,
                  address = None,
                  rooms = (case avito_re_rooms L ctx of
                             Some n \<Rightarrow> Some n
                           | None \<Rightarrow> if avito_re_stud L ctx then Some 0 else None),
                  area_m2 = area,
                  floor_c = map_option fst fl,
                  floors_total = map_option snd fl,
                  price_rub = price,
                  price_per_m2 = price_per_m2_of price area,
                  url = off_url off,
                  is_room_tag = Some (avito_is_room_listing L (off_name off) (Some ctx)),
                  rent_period_tag = Some ''monthly'' \<rparr>)"

text \<open>
  \<^verbatim>\<open>_parse_from_jsonld\<close> on the offers that the loops over the script nodes reach, and the
  fallback of \<^verbatim>\<open>fetch_avito\<close>: \<^verbatim>\<open>_parse_cards\<close> of \<^verbatim>\<open>avito.py\<close> returns the empty list.
\<close>

definition avito_parse_from_jsonld :: "lib \<Rightarrow> offer list \<Rightarrow> candidate list" where
  "avito_parse_from_jsonld L offers = filter has_url (List.map_filter (avito_offer_candidate L) offers)"

definition avito_parse_cards :: "candidate list" where
  "avito_parse_cards = []"

definition avito_page_items :: "lib \<Rightarrow> offer list \<Rightarrow> candidate list" where
  "avito_page_items L offers =
     (let page_items = avito_parse_from_jsonld L offers in
      if page_items = [] then avito_parse_cards else page_items)"

section \<open>Fetching: \<^verbatim>\<open>_fetch_page\<close>, the page loops and \<^verbatim>\<open>job_scrape_city\<close>\<close>

text \<open>
  The outside world of one run. The run is sequential, so every request it sends is
  identified by the site, the page and the number of the attempt; \<open>cian_http W p k\<close> is the
  answer to the \<open>k\<close>-th GET of page \<open>p\<close>: a response with its status and body, or an exception
  of the HTTP client (a timeout, a refused connection). \<open>cian_dom\<close> and \<open>avito_jsonld\<close> stand
  for the HTML and JSON parsers: the card nodes and the offers they find in a body. The
  last three fields are the environment variables read by \<^verbatim>\<open>fetch_avito\<close>. What the run
  does to the world is recorded in a trace of its requests and sleeps. The optional dump of
  the body to a file (\<^verbatim>\<open>DUMP_HTML\<close>) does not change the result and is left out.
\<close>

datatype site = Cian | Avito

datatype http_result = Response nat pystr | NetworkError

datatype io_event = Get site nat nat | Sleep real

record world =
  cian_http :: "nat \<Rightarrow> nat \<Rightarrow> http_result"
  avito_http :: "nat \<Rightarrow> nat \<Rightarrow> http_result"
  cian_dom :: "pystr \<Rightarrow> cian_card list"
  avito_jsonld :: "pystr \<Rightarrow> offer list"
  avito_search_url :: "pystr option"
  avito_max_pages :: int
  avito_rate_limit_ms :: int

text \<open>
  \<^verbatim>\<open>ANTI_BOT_MARKERS\<close> of \<^verbatim>\<open>cian.py\<close>: vy robot; podtverdite, chto vy ne robot; captcha;
  podozritel'naya aktivnost'; Too Many Requests; Dostup vremenno ogranichen.
\<close>

definition cian_anti_bot_markers :: "pystr list" where
  "cian_anti_bot_markers =
     [[1074, 1099, 32, 1088, 1086, 1073, 1086, 1090],
      [1087, 1086, 1076, 1090, 1074, 1077, 1088, 1076, 1080, 1090, 1077, 44, 32, 1095, 1090, 1086, 32, 1074, 1099, 32, 1085, 1077, 32, 1088, 1086, 1073, 1086, 1090],
      [99, 97, 112, 116, 99, 104, 97],
      [1087, 1086, 1076, 1086, 1079, 1088, 1080, 1090, 1077, 1083, 1100, 1085, 1072, 1103, 32, 1072, 1082, 1090, 1080, 1074, 1085, 1086, 1089, 1090, 1100],
      [84, 111, 111, 32, 77, 97, 110, 121, 32, 82, 101, 113, 117, 101, 115, 116, 115],
      [1044, 1086, 1089, 1090, 1091, 1087, 32, 1074, 1088, 1077, 1084, 1077, 1085, 1085, 1086, 32, 1086, 1075, 1088, 1072, 1085, 1080, 1095, 1077, 1085]]"

text \<open>
  The body of \<^verbatim>\<open>_fetch_page\<close> in \<^verbatim>\<open>cian.py\<close>, one attempt: an exception of the client
  passes through; then the three checks, in the order of the source.
\<close>

definition cian_attempt :: "lib \<Rightarrow> http_result \<Rightarrow> error + pystr" where
  "cian_attempt L r =
     (case r of
        NetworkError \<Rightarrow> Inl TransportError
      | Response status body \<Rightarrow>
          if any_in cian_anti_bot_markers (str_lower L body) then Inl FetchError
          else if status \<ge> 400 then Inl FetchError
          else if length body < 5000 then Inl FetchError
          else Inr body)"

text \<open>
  The body of \<^verbatim>\<open>_fetch_page\<close> in \<^verbatim>\<open>avito.py\<close>: only the status raises; the markers and a
  short body are logged and the body is returned.
\<close>

definition avito_attempt :: "http_result \<Rightarrow> error + pystr" where
  "avito_attempt r =
     (case r of
        NetworkError \<Rightarrow> Inl TransportError
      | Response status body \<Rightarrow> if status \<ge> 400 then Inl FetchError else Inr body)"

text \<open>
  The decorator \<^verbatim>\<open>@retry(reraise=True, stop=stop_after_attempt(n), wait=wait_exponential(...),
  retry=retry_if_exception_type(FetchError))\<close> of the library tenacity. The wait after the
  failed attempt \<open>k\<close> is \<^verbatim>\<open>multiplier * 2 ** (k - 1)\<close>, held between \<^verbatim>\<open>min\<close> and \<^verbatim>\<open>max\<close>. A
  \<^verbatim>\<open>FetchError\<close> before the last attempt sleeps and calls again; at the last attempt it is
  raised again; any other exception is raised at once.
\<close>

definition wait_exponential :: "real \<Rightarrow> real \<Rightarrow> real \<Rightarrow> nat \<Rightarrow> real" where
  "wait_exponential multiplier mn mx k = max (max 0 mn) (min (multiplier * 2 ^ (k - 1)) mx)"

function retry_call ::
  "nat \<Rightarrow> (nat \<Rightarrow> real) \<Rightarrow> (nat \<Rightarrow> error + pystr) \<Rightarrow> site \<Rightarrow> nat \<Rightarrow> nat \<Rightarrow> io_event list
     \<Rightarrow> (error + pystr) \<times> io_event list" where
  "retry_call stop wait attempt st page k tr =
     (case attempt k of
        Inr html \<Rightarrow> (Inr html, tr @ [Get st page k])
      | Inl e \<Rightarrow>
          if e = FetchError \<and> k < stop
          then retry_call stop wait attempt st page (Suc k) (tr @ [Get st page k, Sleep (wait k)])
          else (Inl e, tr @ [Get st page k]))"
  by pat_completeness auto
termination
  by (relation "measure (\<lambda>(stop, wait, attempt, st, page, k, tr). stop - k)") auto

declare retry_call.simps [simp del]

definition cian_fetch_page :: "lib \<Rightarrow> world \<Rightarrow> nat \<Rightarrow> io_event list \<Rightarrow> (error + pystr) \<times> io_event list" where
  "cian_fetch_page L W page tr =
     retry_call 4 (wait_exponential (8 / 10) 1 10) (\<lambda>k. cian_attempt L (cian_http W page k)) Cian page 1 tr"

definition avito_fetch_page :: "world \<Rightarrow> nat \<Rightarrow> io_event list \<Rightarrow> (error + pystr) \<times> io_event list" where
  "avito_fetch_page W page tr =
     retry_call 4 (wait_exponential (8 / 10) 1 8) (\<lambda>k. avito_attempt (avito_http W page k)) Avito page 1 tr"

text \<open>
  The page loop of \<^verbatim>\<open>fetch_cian\<close>, \<^verbatim>\<open>for p in range(1, max_pages + 1)\<close> with
  \<^verbatim>\<open>max_pages = max(1, settings.cian_max_pages)\<close>: \<^verbatim>\<open>except Exception\<close> leaves the loop, as
  does a page with fewer than five cards; otherwise the loop sleeps and goes on.
\<close>

function cian_pages ::
  "lib \<Rightarrow> world \<Rightarrow> settings \<Rightarrow> nat \<Rightarrow> candidate list \<Rightarrow> io_event list
     \<Rightarrow> candidate list \<times> io_event list" where
  "cian_pages L W cfg p out tr =
     (if int p > max 1 (cian_max_pages cfg) then (out, tr)
      else
        case cian_fetch_page L W p tr of
          (Inl e, tr1) \<Rightarrow> (out, tr1)
        | (Inr html, tr1) \<Rightarrow>
            let items = cian_parse_cards L (cian_dom W html) in
            if length items < 5 then (out @ items, tr1)
            else cian_pages L W cfg (Suc p) (out @ items)
                   (tr1 @ [Sleep (real_of_int (cian_rate_limit_ms cfg) / 1000)]))"
  by pat_completeness auto
termination
  by (relation "measure (\<lambda>(L, W, cfg, p, out, tr). nat (max 1 (cian_max_pages cfg)) + 1 - p)") auto

declare cian_pages.simps [simp del]

definition fetch_cian :: "lib \<Rightarrow> world \<Rightarrow> settings \<Rightarrow> io_event list \<Rightarrow> candidate list \<times> io_event list" where
  "fetch_cian L W cfg tr =
     (case cian_pages L W cfg 1 [] tr of (out, tr1) \<Rightarrow> (cian_normalize cfg out, tr1))"

text \<open>The page loop of \<^verbatim>\<open>fetch_avito\<close>.\<close>

function avito_pages ::
  "lib \<Rightarrow> world \<Rightarrow> nat \<Rightarrow> candidate list \<Rightarrow> io_event list \<Rightarrow> candidate list \<times> io_event list" where
  "avito_pages L W p items tr =
     (if int p > max 1 (avito_max_pages W) then (items, tr)
      else
        case avito_fetch_page W p tr of
          (Inl e, tr1) \<Rightarrow> (items, tr1)
        | (Inr html, tr1) \<Rightarrow>
            let page_items = avito_page_items L (avito_jsonld W html) in
            if length page_items < 5 then (items @ page_items, tr1)
            else avito_pages L W (Suc p) (items @ page_items)
                   (tr1 @ [Sleep (real_of_int (avito_rate_limit_ms W) / 1000)]))"
  by pat_completeness auto
termination
  by (relation "measure (\<lambda>(L, W, p, items, tr). nat (max 1 (avito_max_pages W)) + 1 - p)") auto

declare avito_pages.simps [simp del]

text \<open>\<^verbatim>\<open>fetch_avito\<close>: without \<^verbatim>\<open>AVITO_SEARCH_URL\<close> nothing is fetched.\<close>

definition fetch_avito :: "lib \<Rightarrow> world \<Rightarrow> settings \<Rightarrow> io_event list \<Rightarrow> candidate list \<times> io_event list" where
  "fetch_avito L W cfg tr =
     (if or_empty (avito_search_url W) = [] then ([], tr)
      else case avito_pages L W 1 [] tr of (items, tr1) \<Rightarrow> (avito_normalize cfg items, tr1))"

text \<open>The loops \<^verbatim>\<open>for item in ...: await upsert_listing(db, item)\<close>; an exception ends them.\<close>

fun upsert_all :: "store \<Rightarrow> candidate list \<Rightarrow> error + store" where
  "upsert_all db [] = Inr db"
| "upsert_all db (item # items) =
     (case upsert_listing db item of Inl e \<Rightarrow> Inl e | Inr db1 \<Rightarrow> upsert_all db1 items)"

text \<open>
  \<^verbatim>\<open>job_scrape_city\<close>: CIAN is fetched and reconciled, then Avito, then the session is
  committed. The result is the committed store, or the exception that left the function (the
  session is then closed without a commit).
\<close>

definition job_scrape_city ::
  "lib \<Rightarrow> world \<Rightarrow> settings \<Rightarrow> store \<Rightarrow> io_event list \<Rightarrow> (error + store) \<times> io_event list" where
  "job_scrape_city L W cfg db tr =
     (case fetch_cian L W cfg tr of
        (cian_items, tr1) \<Rightarrow>
          (case upsert_all db cian_items of
             Inl e \<Rightarrow> (Inl e, tr1)
           | Inr db1 \<Rightarrow>
               (case fetch_avito L W cfg tr1 of
                  (avito_items, tr2) \<Rightarrow> (upsert_all db1 avito_items, tr2))))"

section \<open>Triggers: \<^verbatim>\<open>api/main.py\<close>\<close>

text \<open>
  The runs of \<^verbatim>\<open>job_scrape_city\<close> that have started and not ended, by the way they were
  started. \<^verbatim>\<open>on_startup\<close> registers the job with \<^verbatim>\<open>max_instances=1\<close>: when the interval
  fires while an instance of the job runs, the scheduler skips the run. \<^verbatim>\<open>trigger_cian\<close>
  hands \<^verbatim>\<open>run_job\<close> to \<^verbatim>\<open>background_tasks.add_task\<close>, which starts it after the response
  whatever else runs.
\<close>

record runs =
  scheduled_active :: nat
  background_active :: nat

datatype trigger = IntervalFires | PostScrapeCian | ScheduledRunEnds | BackgroundRunEnds

definition max_instances :: nat where
  "max_instances = 1"

fun step :: "runs \<Rightarrow> trigger \<Rightarrow> runs" where
  "step r IntervalFires =
     (if scheduled_active r < max_instances then r\<lparr> scheduled_active := Suc (scheduled_active r) \<rparr>
      else r)"
| "step r PostScrapeCian = r\<lparr> background_active := Suc (background_active r) \<rparr>"
| "step r ScheduledRunEnds = r\<lparr> scheduled_active := scheduled_active r - 1 \<rparr>"
| "step r BackgroundRunEnds = r\<lparr> background_active := background_active r - 1 \<rparr>"

definition in_flight :: "runs \<Rightarrow> nat" where
  "in_flight r = scheduled_active r + background_active r"

definition after_startup :: runs where
  "after_startup = \<lparr> scheduled_active = 0, background_active = 0 \<rparr>"

definition run_triggers :: "trigger list \<Rightarrow> runs" where
  "run_triggers ts = foldl step after_startup ts"

section \<open>Concrete inputs\<close>

text \<open>
  The candidate of the specification's scenario, as \<^verbatim>\<open>upsert_listing\<close> receives it, and the
  settings with the defaults of \<^verbatim>\<open>core/config.py\<close>.
\<close>

definition scenario_candidate :: candidate where
  "scenario_candidate =
     \<lparr> source = ascii ''cian'', external_id = Some (ascii ''123''), title = None,
       address = None, rooms = None, area_m2 = Some 40, floor_c = None, floors_total = None,
       price_rub = Some 50000, price_per_m2 = None, url = Some (ascii ''u1''),
       is_room_tag = None, rent_period_tag = None \<rparr>"

definition default_settings :: settings where
  "default_settings =
     \<lparr> cian_deal_type = ascii ''rent'', cian_min_area_m2 = 0, cian_max_price_rub = None,
       cian_rent_long_only = True, cian_exclude_rooms = True, cian_max_pages = 3,
       cian_rate_limit_ms = 1200 \<rparr>"

text \<open>The store after the scenario's candidate was inserted into the empty store.\<close>

definition scenario_row :: listing where
  "scenario_row =
     \<lparr> l_id = 1, l_source = ascii ''cian'', l_external_id = Some (ascii ''123''),
       l_title = None, l_address = None, l_rooms = None, l_area_m2 = Some 40, l_floor = None,
       l_floors_total = None, l_price_rub = Some 50000, l_price_per_m2 = Some 1250,
       l_url = Some (ascii ''u1''), l_phone_hash = None, l_active = True \<rparr>"

definition scenario_store :: store where
  "scenario_store =
     \<lparr> listings = [scenario_row],
       snapshots = [\<lparr> s_listing_id = 1, s_price_rub = Some 50000, s_price_per_m2 = Some 1250 \<rparr>],
       next_id = 2 \<rparr>"

text \<open>A candidate as an extractor hands it to the filters, with both provisional tags.\<close>

definition tagged :: "bool \<Rightarrow> string \<Rightarrow> candidate \<Rightarrow> candidate" where
  "tagged r per it = it\<lparr> is_room_tag := Some r, rent_period_tag := Some per \<rparr>"

text \<open>Three candidates; the third repeats the identifier and the URL of the first.\<close>

definition dup_input :: "candidate list" where
  "dup_input =
     [tagged False ''monthly'' scenario_candidate,
      tagged False ''unknown''
        (scenario_candidate\<lparr> external_id := Some (ascii ''456''), url := Some (ascii ''u2'') \<rparr>),
      tagged False ''monthly'' (scenario_candidate\<lparr> price_rub := Some 55000 \<rparr>)]"

text \<open>
  A room that is offered for a month, a flat without a price, and a flat that is offered by
  the day, as the extractors tag them.
\<close>

definition room_candidate :: candidate where
  "room_candidate = tagged True ''monthly'' scenario_candidate"

definition unpriced_candidate :: candidate where
  "unpriced_candidate = tagged False ''monthly'' (scenario_candidate\<lparr> price_rub := None \<rparr>)"

definition daily_candidate :: candidate where
  "daily_candidate = tagged False ''daily'' scenario_candidate"

text \<open>The default settings with \<^verbatim>\<open>CIAN_DEAL_TYPE=sale\<close>.\<close>

definition sale_settings :: settings where
  "sale_settings = default_settings\<lparr> cian_deal_type := ascii ''sale'' \<rparr>"


text \<open>
  The values of \<^verbatim>\<open>str.lower\<close> on the Latin and Cyrillic capitals; the strings of the
  examples below hold no capital, and no other letter with a lower-case form.
\<close>

definition lower_cp :: "nat \<Rightarrow> nat" where
  "lower_cp c =
     (if 65 \<le> c \<and> c \<le> 90 then c + 32
      else if 1040 \<le> c \<and> c \<le> 1071 then c + 32
      else if 1024 \<le> c \<and> c \<le> 1039 then c + 80
      else c)"

text \<open>
  A CIAN card: the title "2-komn. kvartira", the summary "54 m2" (with the sign of the
  square), the price "50 000 R/mes." (with the rouble sign), and a link whose address does
  not end in digits. The text of the card is the three texts in a row; in the second card
  it goes on with "vozmozhno posutochno" (may be rented by the day).
\<close>

definition ex_title :: pystr where
  "ex_title =
     [50, 45, 1082, 1086, 1084, 1085, 46, 32, 1082, 1074, 1072, 1088, 1090, 1080, 1088,
     1072]"

definition ex_summary :: pystr where
  "ex_summary = [53, 52, 32, 1084, 178]"

definition ex_price_text :: pystr where
  "ex_price_text = [53, 48, 32, 48, 48, 48, 32, 8381, 47, 1084, 1077, 1089, 46]"

definition ex_card_text :: pystr where
  "ex_card_text =
     [50, 45, 1082, 1086, 1084, 1085, 46, 32, 1082, 1074, 1072, 1088, 1090, 1080, 1088,
     1072, 32, 53, 52, 32, 1084, 178, 32, 53, 48, 32, 48, 48, 48, 32, 8381, 47, 1084, 1077,
     1089, 46]"

definition ex_card_text_daily :: pystr where
  "ex_card_text_daily =
     [50, 45, 1082, 1086, 1084, 1085, 46, 32, 1082, 1074, 1072, 1088, 1090, 1080, 1088,
     1072, 32, 53, 52, 32, 1084, 178, 32, 53, 48, 32, 48, 48, 48, 32, 8381, 47, 1084, 1077,
     1089, 46, 32, 1074, 1086, 1079, 1084, 1086, 1078, 1085, 1086, 32, 1087, 1086, 1089,
     1091, 1090, 1086, 1095, 1085, 1086]"

definition ex_card :: cian_card where
  "ex_card =
     \<lparr> title_node = Some ex_title, link_href = Some (ascii ''https://www.cian.ru/rent/flat/abc''),
       addr_node = None, offer_summary = ex_summary, card_text = ex_card_text,
       price_node = Some ex_price_text \<rparr>"

definition ex_card_daily :: cian_card where
  "ex_card_daily = ex_card\<lparr> card_text := ex_card_text_daily \<rparr>"

text \<open>
  Two Avito offers: "studiya 30 m2 na sutki" (a studio for a day) for 2000, and
  "1-k. kvartira, 30 m2, 2/5 et." for 25000.
\<close>

definition ex_name_daily :: pystr where
  "ex_name_daily =
     [1089, 1090, 1091, 1076, 1080, 1103, 32, 51, 48, 32, 1084, 178, 32, 1085, 1072, 32,
     1089, 1091, 1090, 1082, 1080]"

definition ex_name_flat :: pystr where
  "ex_name_flat =
     [49, 45, 1082, 46, 32, 1082, 1074, 1072, 1088, 1090, 1080, 1088, 1072, 44, 32, 51, 48,
     32, 1084, 178, 44, 32, 50, 47, 53, 32, 1101, 1090, 46]"

definition ex_avito_url :: pystr where
  "ex_avito_url = ascii ''https://www.avito.ru/sankt-peterburg/kvartiry/123''"

definition ex_offer_daily :: offer where
  "ex_offer_daily =
     \<lparr> off_url = Some ex_avito_url, off_name = Some ex_name_daily, off_price = Some (ascii ''2000'') \<rparr>"

definition ex_offer_flat :: offer where
  "ex_offer_flat =
     \<lparr> off_url = Some ex_avito_url, off_name = Some ex_name_flat, off_price = Some (ascii ''25000'') \<rparr>"

text \<open>
  The answers of Python's library on the strings of these examples: what the searches of
  the two extractors match in them, and the integers their digits spell.
\<close>

definition ex_lib :: lib where
  "ex_lib =
     \<lparr> str_lower = map lower_cp,
       digits_to_int = (\<lambda>t. if t = ex_price_text then Some 50000
                            else if t = ascii ''2000'' then Some 2000
                            else if t = ascii ''25000'' then Some 25000 else None),
       re_room_word = (\<lambda>t. False),
       cian_re_external_id = (\<lambda>u. None),
       cian_re_area = (\<lambda>t. if t = ex_summary then Some 54 else None),
       cian_re_floors = (\<lambda>t. None),
       cian_re_rooms = (\<lambda>t. if t = ex_title @ ascii '' '' @ ex_summary then Some 2 else None),
       avito_re_external_id = (\<lambda>u. if u = ex_avito_url then Some (ascii ''123'') else None),
       avito_re_area = (\<lambda>t. if t = ex_name_daily \<or> t = ex_name_flat then Some 30 else None),
       avito_re_floors = (\<lambda>t. if t = ex_name_flat then Some (2, 5) else None),
       avito_re_stud = (\<lambda>t. t = ex_name_daily),
       avito_re_rooms = (\<lambda>t. if t = ex_name_flat then Some 1 else None) \<rparr>"

text \<open>The candidate that \<^verbatim>\<open>_parse_cards\<close> builds from the first card.\<close>

definition ex_cian_candidate :: candidate where
  "ex_cian_candidate =
     \<lparr> source = ascii ''cian'', external_id = None, title = Some ex_title, address = None,
       rooms = Some 2, area_m2 = Some 54, floor_c = None, floors_total = None,
       price_rub = Some 50000, price_per_m2 = Some (50000 / 54),
       url = Some (ascii ''https://www.cian.ru/rent/flat/abc''),
       is_room_tag = Some False, rent_period_tag = Some ''monthly'' \<rparr>"

text \<open>The candidate that \<^verbatim>\<open>_parse_from_jsonld\<close> builds from the second offer.\<close>

definition ex_avito_candidate :: candidate where
  "ex_avito_candidate =
     \<lparr> source = ascii ''avito'', external_id = Some (ascii ''123''), title = Some ex_name_flat,
       address = None, rooms = Some 1, area_m2 = Some 30, floor_c = Some 2,
       floors_total = Some 5, price_rub = Some 25000, price_per_m2 = Some (25000 / 30),
       url = Some ex_avito_url, is_room_tag = Some False, rent_period_tag = Some ''monthly'' \<rparr>"

text \<open>
  A world for one run. CIAN answers the first page with a body of 5000 blanks, in which the
  parser finds the first card five times, and every request of a later page with the status
  403. Avito answers with the status 200 and a body in which the parser finds the second
  offer. In the second world Avito answers every request with the status 503.
\<close>

definition ex_body :: pystr where
  "ex_body = replicate 5000 32"

definition ex_world :: world where
  "ex_world =
     \<lparr> cian_http = (\<lambda>p k. if p = 1 then Response 200 ex_body else Response 403 []),
       avito_http = (\<lambda>p k. Response 200 []),
       cian_dom = (\<lambda>html. if html = ex_body then [ex_card, ex_card, ex_card, ex_card, ex_card] else []),
       avito_jsonld = (\<lambda>html. [ex_offer_flat]),
       avito_search_url = Some (ascii ''https://www.avito.ru/sankt-peterburg/kvartiry/sdam?s=1''),
       avito_max_pages = 1,
       avito_rate_limit_ms = 1500 \<rparr>"

definition ex_world_avito_down :: world where
  "ex_world_avito_down = ex_world\<lparr> avito_http := (\<lambda>p k. Response 503 []) \<rparr>"

text \<open>The store after one run of the job in the first world, started on the empty store.\<close>

definition ex_store_after_cian :: store where
  "ex_store_after_cian =
     \<lparr> listings = [new_listing 1 (pop_tags ex_cian_candidate)],
       snapshots = [snapshot_of (new_listing 1 (pop_tags ex_cian_candidate))],
       next_id = 2 \<rparr>"

definition ex_store_after_run :: store where
  "ex_store_after_run =
     \<lparr> listings = [new_listing 1 (pop_tags ex_cian_candidate),
                   new_listing 2 (pop_tags ex_avito_candidate)],
       snapshots = [snapshot_of (new_listing 1 (pop_tags ex_cian_candidate)),
                    snapshot_of (new_listing 2 (pop_tags ex_avito_candidate))],
       next_id = 3 \<rparr>"


section \<open>Evaluation of the definitions on concrete inputs\<close>

lemmas ex_defs = scenario_candidate_def default_settings_def scenario_row_def scenario_store_def
  tagged_def dup_input_def empty_store_def ascii_def room_candidate_def unpriced_candidate_def
  daily_candidate_def sale_settings_def

lemmas upsert_defs = upsert_listing_def select_listing_def scalar_one_or_none_def
  insert_branch_def update_branch_def new_listing_def snapshot_of_def area_divisor_def
  truthy_int_def truthy_real_def Let_def

lemmas normalize_defs = dedup_def dedup_key_def cian_normalize_def avito_normalize_def
  avito_filtered_def cian_long_rent_filter_def avito_long_rent_filter_def rooms_filter_def
  cian_numeric_filter_def avito_numeric_filter_def not_daily_def not_is_room_def pop_tags_def
  area_ok_def cian_price_ok_def avito_price_ok_def avito_price_cap_def truthy_int_def


section \<open>Reconciliation\<close>

lemma truthy_int_iff: "truthy_int v \<longleftrightarrow> (\<exists>n. v = Some n \<and> n \<noteq> 0)"
  by (cases v) (simp_all add: truthy_int_def)

lemma truthy_real_iff: "truthy_real v \<longleftrightarrow> (\<exists>a. v = Some a \<and> a \<noteq> 0)"
  by (cases v) (simp_all add: truthy_real_def)

text \<open>The insert branch, when no stored listing matches and the tags are stripped.\<close>

lemma upsert_absent:
  assumes "select_listing db (source p) (external_id p) = []"
    and "is_room_tag p = None" "rent_period_tag p = None"
  shows "upsert_listing db p =
           (let obj = (if truthy_real (area_m2 p) \<and> truthy_int (price_rub p)
                       then (new_listing (next_id db) p)
                              \<lparr> l_price_per_m2 :=
                                  Some (real_of_int (the (price_rub p)) / the (area_m2 p)) \<rparr>
                       else new_listing (next_id db) p)
            in Inr \<lparr> listings = listings db @ [obj], snapshots = snapshots db @ [snapshot_of obj],
                     next_id = Suc (next_id db) \<rparr>)"
  using assms by (simp add: upsert_listing_def scalar_one_or_none_def insert_branch_def Let_def)

text \<open>
  Claim C2, as the code has it. When no stored listing has the candidate's source and
  external id (and the candidate's provisional tags are stripped, as the filters leave
  them), \<^verbatim>\<open>upsert_listing\<close> appends one listing that copies the candidate's fields and one
  price snapshot that carries the listing's id and its two price fields. The stored
  \<open>price_per_m2\<close> is the price divided by the area when both are present and not zero;
  otherwise it is the candidate's own \<open>price_per_m2\<close>.
\<close>

theorem C2_insert:
  assumes absent: "select_listing db (source p) (external_id p) = []"
    and stripped: "is_room_tag p = None" "rent_period_tag p = None"
  shows "\<exists>obj. upsert_listing db p =
             Inr \<lparr> listings = listings db @ [obj],
                   snapshots = snapshots db @
                     [\<lparr> s_listing_id = l_id obj, s_price_rub = l_price_rub obj,
                        s_price_per_m2 = l_price_per_m2 obj \<rparr>],
                   next_id = Suc (next_id db) \<rparr> \<and>
           l_id obj = next_id db \<and> l_source obj = source p \<and>
           l_external_id obj = external_id p \<and> l_title obj = title p \<and>
           l_address obj = address p \<and> l_rooms obj = rooms p \<and> l_area_m2 obj = area_m2 p \<and>
           l_floor obj = floor_c p \<and> l_floors_total obj = floors_total p \<and>
           l_url obj = url p \<and> l_active obj \<and> l_price_rub obj = price_rub p \<and>
           l_price_per_m2 obj =
             (if (\<exists>n. price_rub p = Some n \<and> n \<noteq> 0) \<and> (\<exists>a. area_m2 p = Some a \<and> a \<noteq> 0)
              then Some (real_of_int (the (price_rub p)) / the (area_m2 p))
              else price_per_m2 p)"
proof -
  let ?obj = "if truthy_real (area_m2 p) \<and> truthy_int (price_rub p)
              then (new_listing (next_id db) p)
                     \<lparr> l_price_per_m2 := Some (real_of_int (the (price_rub p)) / the (area_m2 p)) \<rparr>
              else new_listing (next_id db) p"
  have "upsert_listing db p =
          Inr \<lparr> listings = listings db @ [?obj], snapshots = snapshots db @ [snapshot_of ?obj],
                next_id = Suc (next_id db) \<rparr>"
    using upsert_absent [OF absent stripped] by (simp add: Let_def)
  then show ?thesis
    by (intro exI [of _ ?obj])
       (auto simp: snapshot_of_def new_listing_def truthy_int_iff truthy_real_iff)
qed

text \<open>
  The scenario of the specification: against the empty store the candidate is inserted
  with \<open>price_per_m2 = 1250\<close> and exactly one snapshot is written.
\<close>

theorem C2_insert_witness:
  "select_listing empty_store (source scenario_candidate) (external_id scenario_candidate) = [] \<and>
   is_room_tag scenario_candidate = None \<and> rent_period_tag scenario_candidate = None \<and>
   upsert_listing empty_store scenario_candidate = Inr scenario_store"
  using C2_insert [of empty_store scenario_candidate]
  by (simp add: ex_defs upsert_defs)

text \<open>
  Claim C2 as stated fails for a price that is present and zero: the division is skipped
  and the stored \<open>price_per_m2\<close> stays absent, where the claim asks for \<open>0 / 40\<close>.
\<close>

theorem C2_counterexample:
  "\<not> (\<forall>db p db'. select_listing db (source p) (external_id p) = [] \<longrightarrow>
         upsert_listing db p = Inr db' \<longrightarrow>
         (\<forall>n a. price_rub p = Some n \<longrightarrow> area_m2 p = Some a \<longrightarrow>
            l_price_per_m2 (last (listings db')) = Some (real_of_int n / a)))"
proof
  assume claim: "\<forall>db p db'. select_listing db (source p) (external_id p) = [] \<longrightarrow>
         upsert_listing db p = Inr db' \<longrightarrow>
         (\<forall>n a. price_rub p = Some n \<longrightarrow> area_m2 p = Some a \<longrightarrow>
            l_price_per_m2 (last (listings db')) = Some (real_of_int n / a))"
  let ?p = "scenario_candidate\<lparr> price_rub := Some 0 \<rparr>"
  let ?db' = "\<lparr> listings = [scenario_row\<lparr> l_price_rub := Some 0, l_price_per_m2 := None \<rparr>],
               snapshots = [\<lparr> s_listing_id = 1, s_price_rub = Some 0, s_price_per_m2 = None \<rparr>],
               next_id = 2 \<rparr>"
  have sel: "select_listing empty_store (source ?p) (external_id ?p) = []"
    by (simp add: ex_defs upsert_defs)
  have run: "upsert_listing empty_store ?p = Inr ?db'"
    by (simp add: ex_defs upsert_defs)
  have "price_rub ?p = Some 0" and "area_m2 ?p = Some 40"
    by (simp_all add: ex_defs)
  with claim sel run
  have "l_price_per_m2 (last (listings ?db')) = Some (real_of_int 0 / 40)"
    by blast
  then show False by simp
qed

text \<open>
  Claim C1, as the code has it. When exactly one stored listing has the candidate's source
  and external id (and primary keys are unique): if the candidate's price is present, not
  zero and differs from the stored price, the listing's \<open>price_rub\<close> becomes the candidate's
  price, its \<open>price_per_m2\<close> becomes that price divided by the first of the candidate's area,
  the stored area and 1 that is present and not zero, one snapshot with these two values is
  appended, and nothing else changes; otherwise the store is unchanged.
\<close>

theorem C1_update:
  assumes found: "select_listing db (source p) (external_id p) = [obj]"
    and keys: "distinct (map l_id (listings db))"
  shows "upsert_listing db p =
           Inr (if (\<exists>n. price_rub p = Some n \<and> n \<noteq> 0) \<and> price_rub p \<noteq> l_price_rub obj
                then db\<lparr> listings :=
                           map (\<lambda>l. if l = obj
                                    then l\<lparr> l_price_rub := price_rub p,
                                            l_price_per_m2 :=
                                              Some (real_of_int (the (price_rub p)) / area_divisor p obj) \<rparr>
                                    else l) (listings db),
                         snapshots := snapshots db @
                           [\<lparr> s_listing_id = l_id obj, s_price_rub = price_rub p,
                              s_price_per_m2 =
                                Some (real_of_int (the (price_rub p)) / area_divisor p obj) \<rparr>] \<rparr>
                else db) \<and>
         area_divisor p obj =
           (case area_m2 p of
              Some a \<Rightarrow> if a \<noteq> 0 then a
                        else (case l_area_m2 obj of Some b \<Rightarrow> if b \<noteq> 0 then b else 1 | None \<Rightarrow> 1)
            | None \<Rightarrow> (case l_area_m2 obj of Some b \<Rightarrow> if b \<noteq> 0 then b else 1 | None \<Rightarrow> 1))"
proof -
  have "obj \<in> set (select_listing db (source p) (external_id p))"
    using found by simp
  then have mem: "obj \<in> set (listings db)"
    by (simp add: select_listing_def)
  have same: "l_id l = l_id obj \<longleftrightarrow> l = obj" if "l \<in> set (listings db)" for l
    using keys mem that by (auto simp: distinct_map inj_on_def)
  have rows: "map (\<lambda>l. if l_id l = l_id obj then x else l) (listings db) =
              map (\<lambda>l. if l = obj then x else l) (listings db)" for x
    by (rule map_cong) (simp_all add: same)
  have div: "area_divisor p obj =
           (case area_m2 p of
              Some a \<Rightarrow> if a \<noteq> 0 then a
                        else (case l_area_m2 obj of Some b \<Rightarrow> if b \<noteq> 0 then b else 1 | None \<Rightarrow> 1)
            | None \<Rightarrow> (case l_area_m2 obj of Some b \<Rightarrow> if b \<noteq> 0 then b else 1 | None \<Rightarrow> 1))"
    by (simp add: area_divisor_def truthy_real_def split: option.splits)
  have "upsert_listing db p = Inr (update_branch db p obj)"
    using found by (simp add: upsert_listing_def scalar_one_or_none_def)
  also have "update_branch db p obj =
      (if (\<exists>n. price_rub p = Some n \<and> n \<noteq> 0) \<and> price_rub p \<noteq> l_price_rub obj
                then db\<lparr> listings :=
                           map (\<lambda>l. if l = obj
                                    then l\<lparr> l_price_rub := price_rub p,
                                            l_price_per_m2 :=
                                              Some (real_of_int (the (price_rub p)) / area_divisor p obj) \<rparr>
                                    else l) (listings db),
                         snapshots := snapshots db @
                           [\<lparr> s_listing_id = l_id obj, s_price_rub = price_rub p,
                              s_price_per_m2 =
                                Some (real_of_int (the (price_rub p)) / area_divisor p obj) \<rparr>] \<rparr>
                else db)"
    unfolding update_branch_def Let_def truthy_int_iff rows snapshot_of_def
    by (auto intro!: arg_cong2 [where f = "\<lambda>a b. db\<lparr>listings := a, snapshots := b\<rparr>"] map_cong)
  finally show ?thesis using div by simp
qed

text \<open>
  The scenario's second step: the listing is submitted again with the price 55000; the
  stored price and \<open>price_per_m2 = 1375\<close> are updated and a second snapshot is appended.
\<close>

theorem C1_update_witness:
  "select_listing scenario_store (source (scenario_candidate\<lparr> price_rub := Some 55000 \<rparr>))
     (external_id (scenario_candidate\<lparr> price_rub := Some 55000 \<rparr>)) = [scenario_row] \<and>
   distinct (map l_id (listings scenario_store)) \<and>
   upsert_listing scenario_store (scenario_candidate\<lparr> price_rub := Some 55000 \<rparr>) =
     Inr \<lparr> listings = [scenario_row\<lparr> l_price_rub := Some 55000, l_price_per_m2 := Some 1375 \<rparr>],
           snapshots =
             [\<lparr> s_listing_id = 1, s_price_rub = Some 50000, s_price_per_m2 = Some 1250 \<rparr>,
              \<lparr> s_listing_id = 1, s_price_rub = Some 55000, s_price_per_m2 = Some 1375 \<rparr>],
           next_id = 2 \<rparr>"
  using C1_update [of scenario_store "scenario_candidate\<lparr> price_rub := Some 55000 \<rparr>" scenario_row]
  by (simp add: ex_defs upsert_defs)

text \<open>
  Claim C1 as stated fails in two ways. A candidate whose price is present and zero differs
  from the stored price 50000, and the store is left as it is. A candidate whose area is
  present and zero does not supply the divisor: the stored area 40 does, and the new
  \<open>price_per_m2\<close> is \<open>55000 / 40\<close>.
\<close>

theorem C1_counterexample:
  "select_listing scenario_store (source (scenario_candidate\<lparr> price_rub := Some 0 \<rparr>))
     (external_id (scenario_candidate\<lparr> price_rub := Some 0 \<rparr>)) = [scenario_row] \<and>
   price_rub (scenario_candidate\<lparr> price_rub := Some 0 \<rparr>) = Some 0 \<and>
   l_price_rub scenario_row = Some 50000 \<and>
   upsert_listing scenario_store (scenario_candidate\<lparr> price_rub := Some 0 \<rparr>) = Inr scenario_store \<and>
   area_m2 (scenario_candidate\<lparr> price_rub := Some 55000, area_m2 := Some 0 \<rparr>) = Some 0 \<and>
   upsert_listing scenario_store (scenario_candidate\<lparr> price_rub := Some 55000, area_m2 := Some 0 \<rparr>) =
     Inr \<lparr> listings = [scenario_row\<lparr> l_price_rub := Some 55000, l_price_per_m2 := Some 1375 \<rparr>],
           snapshots =
             [\<lparr> s_listing_id = 1, s_price_rub = Some 50000, s_price_per_m2 = Some 1250 \<rparr>,
              \<lparr> s_listing_id = 1, s_price_rub = Some 55000, s_price_per_m2 = Some 1375 \<rparr>],
           next_id = 2 \<rparr>"
  by (simp add: ex_defs upsert_defs)


section \<open>Normalising and filtering\<close>

lemma dedup_loop_subseq: "subseq (dedup_loop seen xs) xs"
  by (induction xs arbitrary: seen) auto

lemma dedup_loop_set: "set (dedup_loop seen xs) \<subseteq> set xs"
  by (induction xs arbitrary: seen) auto

lemma dedup_loop_keys: "dedup_key ` set (dedup_loop seen xs) = dedup_key ` set xs - seen"
  by (induction xs arbitrary: seen) auto

lemma dedup_loop_distinct: "distinct (map dedup_key (dedup_loop seen xs))"
proof (induction xs arbitrary: seen)
  case Nil
  show ?case by simp
next
  case (Cons it its)
  have "dedup_key it \<notin> dedup_key ` set (dedup_loop (insert (dedup_key it) seen) its)"
    unfolding dedup_loop_keys by simp
  with Cons show ?case by simp
qed

lemma dedup_loop_first:
  "x \<in> set (dedup_loop seen xs) \<Longrightarrow> find (\<lambda>y. dedup_key y = dedup_key x) xs = Some x"
proof (induction xs arbitrary: seen)
  case Nil
  then show ?case by simp
next
  case (Cons it its)
  show ?case
  proof (cases "dedup_key it \<in> seen")
    case True
    with Cons.prems have mem: "x \<in> set (dedup_loop seen its)" by simp
    then have "dedup_key x \<in> dedup_key ` set its - seen"
      using dedup_loop_keys [of seen its] by blast
    with True have "dedup_key it \<noteq> dedup_key x" by auto
    with Cons.IH [OF mem] show ?thesis by simp
  next
    case False
    show ?thesis
    proof (cases "x = it")
      case True
      then show ?thesis by simp
    next
      case ne: False
      with False Cons.prems have mem: "x \<in> set (dedup_loop (insert (dedup_key it) seen) its)"
        by simp
      then have "dedup_key x \<in> dedup_key ` set its - insert (dedup_key it) seen"
        using dedup_loop_keys [of "insert (dedup_key it) seen" its] by blast
      then have "dedup_key it \<noteq> dedup_key x" by auto
      with Cons.IH [OF mem] show ?thesis by simp
    qed
  qed
qed

lemma dedup_key_pop_tags: "dedup_key (pop_tags it) = dedup_key it"
  by (simp add: dedup_key_def pop_tags_def)

lemma not_is_room_pop_tags: "not_is_room (pop_tags it)"
  by (simp add: not_is_room_def pop_tags_def)

lemma rooms_filter_popped: "rooms_filter cfg (map pop_tags xs) = map pop_tags xs"
  by (simp add: rooms_filter_def not_is_room_pop_tags)

lemma numeric_pop_tags:
  "area_ok cfg (pop_tags it) = area_ok cfg it"
  "cian_price_ok cfg (pop_tags it) = cian_price_ok cfg it"
  "avito_price_ok cfg (pop_tags it) = avito_price_ok cfg it"
  by (simp_all add: area_ok_def cian_price_ok_def avito_price_ok_def pop_tags_def
      split: option.splits)

lemma cian_normalize_eq:
  "cian_normalize cfg out =
     map pop_tags (cian_numeric_filter cfg (cian_long_rent_filter cfg (dedup out)))"
  by (simp add: cian_normalize_def rooms_filter_popped cian_numeric_filter_def filter_map
      comp_def numeric_pop_tags)

lemma cian_stage_subseq: "subseq (cian_numeric_filter cfg (cian_long_rent_filter cfg xs)) xs"
  by (auto simp: cian_numeric_filter_def cian_long_rent_filter_def intro: subseq_order.trans [OF subseq_filter_left subseq_filter_left])

lemma avito_stage_subseq:
  "subseq (avito_numeric_filter cfg (rooms_filter cfg (avito_long_rent_filter cfg xs))) xs"
  by (auto simp: avito_numeric_filter_def rooms_filter_def avito_long_rent_filter_def
      intro: subseq_order.trans [OF subseq_filter_left subseq_filter_left]
             subseq_order.trans [OF subseq_filter_left subseq_order.trans [OF subseq_filter_left subseq_filter_left]])

lemma stage_distinct:
  "distinct (map dedup_key xs) \<Longrightarrow>
     distinct (map dedup_key (cian_numeric_filter cfg (cian_long_rent_filter cfg xs)))"
  "distinct (map dedup_key xs) \<Longrightarrow>
     distinct (map dedup_key (avito_numeric_filter cfg (rooms_filter cfg (avito_long_rent_filter cfg xs))))"
  by (simp_all add: cian_numeric_filter_def cian_long_rent_filter_def avito_numeric_filter_def
      rooms_filter_def avito_long_rent_filter_def distinct_map_filter)

lemma map_key_pop: "map dedup_key (map pop_tags xs) = map dedup_key xs"
  by (simp add: dedup_key_pop_tags)

text \<open>
  Claim C7. The dedup keeps one candidate for every pair (external id, URL) of the input,
  the first one that carries the pair, in the order of the input; the outputs of both
  normalisers are sub-sequences of the deduplicated list (tags removed), hold no pair
  twice, and every candidate in them is the first of the input with its pair.
\<close>

theorem C7_dedup:
  "distinct (map dedup_key (dedup out)) \<and>
   dedup_key ` set (dedup out) = dedup_key ` set out \<and>
   (\<forall>x \<in> set (dedup out). find (\<lambda>y. dedup_key y = dedup_key x) out = Some x) \<and>
   subseq (dedup out) out \<and>
   distinct (map dedup_key (cian_normalize cfg out)) \<and>
   subseq (cian_normalize cfg out) (map pop_tags (dedup out)) \<and>
   distinct (map dedup_key (avito_normalize cfg out)) \<and>
   subseq (avito_normalize cfg out) (map pop_tags (dedup out)) \<and>
   (\<forall>y \<in> set (cian_normalize cfg out) \<union> set (avito_normalize cfg out).
      \<exists>x. find (\<lambda>z. dedup_key z = dedup_key y) out = Some x \<and> y = pop_tags x)"
proof -
  have d: "distinct (map dedup_key (dedup out))"
    by (simp add: dedup_def dedup_loop_distinct)
  have k: "dedup_key ` set (dedup out) = dedup_key ` set out"
    by (simp add: dedup_def dedup_loop_keys)
  have f: "\<forall>x \<in> set (dedup out). find (\<lambda>y. dedup_key y = dedup_key x) out = Some x"
    by (simp add: dedup_def dedup_loop_first)
  have s: "subseq (dedup out) out"
    by (simp add: dedup_def dedup_loop_subseq)
  have cd: "distinct (map dedup_key (cian_normalize cfg out))"
    unfolding cian_normalize_eq map_key_pop by (rule stage_distinct(1) [OF d])
  have cs: "subseq (cian_normalize cfg out) (map pop_tags (dedup out))"
    unfolding cian_normalize_eq by (rule subseq_map [OF cian_stage_subseq])
  have ad: "distinct (map dedup_key (avito_normalize cfg out))"
    unfolding avito_normalize_def avito_filtered_def map_key_pop by (rule stage_distinct(2) [OF d])
  have as: "subseq (avito_normalize cfg out) (map pop_tags (dedup out))"
    unfolding avito_normalize_def avito_filtered_def by (rule subseq_map [OF avito_stage_subseq])
  have "set (cian_normalize cfg out) \<union> set (avito_normalize cfg out) \<subseteq>
          pop_tags ` set (dedup out)"
    unfolding cian_normalize_eq
    by (auto simp: avito_normalize_def avito_filtered_def cian_numeric_filter_def
        cian_long_rent_filter_def avito_numeric_filter_def rooms_filter_def
        avito_long_rent_filter_def)
  then have first: "\<forall>y \<in> set (cian_normalize cfg out) \<union> set (avito_normalize cfg out).
      \<exists>x. find (\<lambda>z. dedup_key z = dedup_key y) out = Some x \<and> y = pop_tags x"
    using f by (auto simp: dedup_key_pop_tags)
  from d k f s cd cs ad as first show ?thesis by blast
qed

text \<open>The third candidate of \<open>dup_input\<close> repeats the pair of the first and is dropped.\<close>

theorem C7_dedup_witness:
  "dedup dup_input = [dup_input ! 0, dup_input ! 1] \<and>
   find (\<lambda>y. dedup_key y = dedup_key (dup_input ! 0)) dup_input = Some (dup_input ! 0) \<and>
   distinct (map dedup_key (cian_normalize default_settings dup_input)) \<and>
   distinct (map dedup_key (avito_normalize default_settings dup_input)) \<and>
   cian_normalize default_settings dup_input = map pop_tags [dup_input ! 0, dup_input ! 1]"
  using C7_dedup [of dup_input default_settings]
  by (simp add: ex_defs normalize_defs)


text \<open>
  The filters of \<^verbatim>\<open>fetch_avito\<close> run before the tags are removed. In \<^verbatim>\<open>fetch_cian\<close> the
  two \<^verbatim>\<open>pop\<close>s stand between the long-rent filter and the rooms filter, so the rooms filter
  reads a missing key and keeps every item.
\<close>

lemma avito_filtered_no_rooms:
  "cian_exclude_rooms cfg \<Longrightarrow> it \<in> set (avito_filtered cfg items) \<Longrightarrow> is_room_tag it \<noteq> Some True"
  by (auto simp: avito_filtered_def avito_numeric_filter_def rooms_filter_def not_is_room_def)

lemma cian_rooms_filter_keeps_all:
  "rooms_filter cfg (map pop_tags (cian_long_rent_filter cfg (dedup out))) =
     map pop_tags (cian_long_rent_filter cfg (dedup out))"
  by (rule rooms_filter_popped)

text \<open>
  Claim C3 at a failing input: with the default settings (\<open>cian_exclude_rooms\<close> set) a
  candidate tagged as a room leaves \<^verbatim>\<open>fetch_cian\<close>'s filters, while \<^verbatim>\<open>fetch_avito\<close>'s
  filters drop it.
\<close>

theorem C3_cian_keeps_room:
  "cian_exclude_rooms default_settings \<and> is_room_tag room_candidate = Some True \<and>
   cian_normalize default_settings [room_candidate] = [scenario_candidate] \<and>
   avito_normalize default_settings [room_candidate] = []"
  by (simp add: ex_defs normalize_defs)

text \<open>
  The numeric filter of \<^verbatim>\<open>fetch_cian\<close> is the one the specification describes: an item
  passes exactly when its area is present and not below the minimum, and either no maximum
  is set or its price is present and not above it.
\<close>

lemma cian_numeric_filter_iff:
  "it \<in> set (cian_numeric_filter cfg xs) \<longleftrightarrow>
     it \<in> set xs \<and> (\<exists>a. area_m2 it = Some a \<and> a \<ge> cian_min_area_m2 cfg) \<and>
     (cian_max_price_rub cfg = None \<or>
      (\<exists>p mx. price_rub it = Some p \<and> cian_max_price_rub cfg = Some mx \<and> p \<le> mx))"
  by (auto simp: cian_numeric_filter_def area_ok_def cian_price_ok_def split: option.splits)

text \<open>
  The filter of \<^verbatim>\<open>fetch_avito\<close> asks for a price in every case and compares it with
  \<open>10 ^ 12\<close> when no maximum (or the maximum 0) is set.
\<close>

lemma avito_numeric_filter_iff:
  "it \<in> set (avito_numeric_filter cfg xs) \<longleftrightarrow>
     it \<in> set xs \<and> (\<exists>a. area_m2 it = Some a \<and> a \<ge> cian_min_area_m2 cfg) \<and>
     (\<exists>p. price_rub it = Some p \<and> p \<le> avito_price_cap cfg)"
  by (auto simp: avito_numeric_filter_def area_ok_def avito_price_ok_def split: option.splits)

text \<open>
  Claim C5 at a failing input: no maximum price is set, the candidate has the area 40 and
  no price. \<^verbatim>\<open>fetch_cian\<close>'s filter keeps it, \<^verbatim>\<open>fetch_avito\<close>'s filter drops it.
\<close>

theorem C5_avito_drops_unpriced:
  "cian_max_price_rub default_settings = None \<and> area_m2 unpriced_candidate = Some 40 \<and>
   price_rub unpriced_candidate = None \<and>
   cian_numeric_filter default_settings [unpriced_candidate] = [unpriced_candidate] \<and>
   avito_numeric_filter default_settings [unpriced_candidate] = [] \<and>
   avito_normalize default_settings [unpriced_candidate] = []"
  by (simp add: ex_defs normalize_defs)

text \<open>
  Claim C6, as the code has it. \<^verbatim>\<open>fetch_avito\<close> applies the long-rent filter whenever
  \<open>cian_rent_long_only\<close> is set; \<^verbatim>\<open>fetch_cian\<close> applies it when, in addition, the deal type
  is \<^verbatim>\<open>"rent"\<close>. Where it is applied, the filter's output holds no candidate tagged daily
  and holds every input candidate with another tag (unknown among them), and every
  candidate in the normaliser's output comes from an input candidate that is not tagged
  daily. With any other deal type \<^verbatim>\<open>fetch_cian\<close>'s long-rent filter returns its input as
  it is.
\<close>

theorem C6_long_rent:
  assumes "cian_rent_long_only cfg"
  shows "(cian_deal_type cfg = ascii ''rent'' \<longrightarrow>
            set (cian_long_rent_filter cfg xs) = {it \<in> set xs. rent_period_tag it \<noteq> Some ''daily''} \<and>
            (\<forall>y \<in> set (cian_normalize cfg xs).
               \<exists>x \<in> set xs. y = pop_tags x \<and> rent_period_tag x \<noteq> Some ''daily'')) \<and>
         set (avito_long_rent_filter cfg xs) = {it \<in> set xs. rent_period_tag it \<noteq> Some ''daily''} \<and>
         (\<forall>y \<in> set (avito_normalize cfg xs).
            \<exists>x \<in> set xs. y = pop_tags x \<and> rent_period_tag x \<noteq> Some ''daily'') \<and>
         (cian_deal_type cfg \<noteq> ascii ''rent'' \<longrightarrow> cian_long_rent_filter cfg xs = xs)"
proof -
  have other: "cian_deal_type cfg \<noteq> ascii ''rent'' \<longrightarrow> cian_long_rent_filter cfg xs = xs"
    by (simp add: cian_long_rent_filter_def)
  have sub: "set (dedup xs) \<subseteq> set xs"
    by (simp add: dedup_def dedup_loop_set)
  have avito_filter: "set (avito_long_rent_filter cfg xs) = {it \<in> set xs. rent_period_tag it \<noteq> Some ''daily''}"
    using assms by (auto simp: avito_long_rent_filter_def not_daily_def)
  have avito_out: "\<forall>y \<in> set (avito_normalize cfg xs).
            \<exists>x \<in> set xs. y = pop_tags x \<and> rent_period_tag x \<noteq> Some ''daily''"
    using assms sub
    by (auto simp: avito_normalize_def avito_filtered_def avito_numeric_filter_def rooms_filter_def
        avito_long_rent_filter_def not_daily_def)
  have cian: "set (cian_long_rent_filter cfg xs) = {it \<in> set xs. rent_period_tag it \<noteq> Some ''daily''} \<and>
            (\<forall>y \<in> set (cian_normalize cfg xs).
               \<exists>x \<in> set xs. y = pop_tags x \<and> rent_period_tag x \<noteq> Some ''daily'')"
    if "cian_deal_type cfg = ascii ''rent''"
    using assms that sub unfolding cian_normalize_eq
    by (auto simp: cian_numeric_filter_def cian_long_rent_filter_def not_daily_def)
  from avito_filter avito_out cian other show ?thesis by blast
qed

text \<open>
  With the default settings the candidate tagged daily is dropped by both normalisers and
  the candidate tagged unknown (the second of \<open>dup_input\<close>) passes the long-rent filter.
  With the deal type \<^verbatim>\<open>"sale"\<close> the long-rent filter of \<^verbatim>\<open>fetch_cian\<close> returns its input.
\<close>

theorem C6_long_rent_witness:
  "cian_rent_long_only default_settings \<and> cian_deal_type default_settings = ascii ''rent'' \<and>
   cian_long_rent_filter default_settings (daily_candidate # dup_input) = dup_input \<and>
   avito_long_rent_filter default_settings (daily_candidate # dup_input) = dup_input \<and>
   cian_normalize default_settings [daily_candidate] = [] \<and>
   avito_normalize default_settings [daily_candidate] = [] \<and>
   rent_period_tag (dup_input ! 1) = Some ''unknown'' \<and>
   cian_rent_long_only sale_settings \<and> cian_deal_type sale_settings \<noteq> ascii ''rent'' \<and>
   cian_long_rent_filter sale_settings (daily_candidate # dup_input) = daily_candidate # dup_input"
  using C6_long_rent [of default_settings "daily_candidate # dup_input"]
    C6_long_rent [of sale_settings "daily_candidate # dup_input"]
  by (simp add: ex_defs normalize_defs)

text \<open>
  Claim C6 as stated fails for CIAN when the deal type is \<^verbatim>\<open>"sale"\<close>: the flag is set and
  the candidate tagged daily stays.
\<close>

theorem C6_counterexample:
  "cian_rent_long_only sale_settings \<and> rent_period_tag daily_candidate = Some ''daily'' \<and>
   cian_long_rent_filter sale_settings [daily_candidate] = [daily_candidate] \<and>
   cian_normalize sale_settings [daily_candidate] = [scenario_candidate]"
  by (simp add: ex_defs normalize_defs)


section \<open>Extraction\<close>

lemmas extract_defs = cian_parse_cards_def cian_card_candidate_def cian_url_def
  cian_summary_txt_def cian_context_txt_def cian_is_room_listing_def cian_detect_rent_period_def
  avito_parse_from_jsonld_def avito_offer_candidate_def avito_is_room_listing_def
  avito_detect_rent_period_def avito_page_items_def avito_parse_cards_def
  has_url_def or_empty_def parse_int_def price_per_m2_of_def any_in_def
  cian_daily_markers_def avito_daily_markers_def monthly_markers_def
  kw_kvartira_def kw_studiya_def kw_komnata_v_def kw_komn_v_def kw_v_podseleni_def
  kw_sdayotsya_komnata_def kw_sdaetsya_komnata_def kw_podselenie_def kw_komnatn_def
  List.map_filter_def truthy_real_def truthy_int_def Let_def

lemmas ex_extract_defs = ex_lib_def lower_cp_def ex_title_def ex_summary_def ex_price_text_def
  ex_card_text_def ex_card_text_daily_def ex_card_def ex_card_daily_def ex_name_daily_def
  ex_name_flat_def ex_avito_url_def ex_offer_daily_def ex_offer_flat_def ex_cian_candidate_def
  ex_avito_candidate_def ascii_def

text \<open>\<open>py_in\<close> is the contiguous-sublist relation.\<close>

lemma py_in_sublist: "py_in m s \<longleftrightarrow> sublist m s"
  by (induction s) (auto simp: sublist_Cons_right)

lemma any_in_sublist: "any_in ms s \<longleftrightarrow> (\<exists>m \<in> set ms. sublist m s)"
  by (simp add: any_in_def list_ex_iff py_in_sublist)

lemma ex_cian_candidate_eval: "cian_card_candidate ex_lib ex_card = ex_cian_candidate"
  by (simp add: extract_defs ex_extract_defs)

lemma ex_avito_candidate_eval: "avito_offer_candidate ex_lib ex_offer_flat = Some ex_avito_candidate"
  by (simp add: extract_defs ex_extract_defs)

text \<open>
  Claim C4, as the code has it, for CIAN. Every candidate that \<^verbatim>\<open>_parse_cards\<close> returns is
  built from a card and carries the tag that \<^verbatim>\<open>_detect_rent_period\<close> computes from the
  card's context: the price text, the title, the summary text and the text of the whole
  card, joined by blanks. The tag is daily when a daily marker occurs in the lower-cased
  context, else monthly when a monthly marker occurs, else unknown.
\<close>

theorem C4_cian_rent_period:
  "(\<forall>c \<in> set (cian_parse_cards L nodes).
      \<exists>nd \<in> set nodes. c = cian_card_candidate L nd \<and>
        rent_period_tag c = Some (cian_detect_rent_period L (cian_context_txt nd))) \<and>
   cian_context_txt nd =
     or_empty (price_node nd) @ [32] @ or_empty (title_node nd) @ [32] @
     (if offer_summary nd = [] then card_text nd else offer_summary nd) @ [32] @ card_text nd \<and>
   cian_detect_rent_period L txt =
     (if \<exists>m \<in> set cian_daily_markers. sublist m (str_lower L txt) then ''daily''
      else if \<exists>m \<in> set monthly_markers. sublist m (str_lower L txt) then ''monthly''
      else ''unknown'')"
proof -
  have tag: "rent_period_tag (cian_card_candidate L n) =
               Some (cian_detect_rent_period L (cian_context_txt n))" for n
    by (simp add: cian_card_candidate_def Let_def)
  have cards: "\<forall>c \<in> set (cian_parse_cards L nodes).
      \<exists>nd \<in> set nodes. c = cian_card_candidate L nd \<and>
        rent_period_tag c = Some (cian_detect_rent_period L (cian_context_txt nd))"
    using tag by (auto simp: cian_parse_cards_def)
  have ctx: "cian_context_txt nd =
     or_empty (price_node nd) @ [32] @ or_empty (title_node nd) @ [32] @
     (if offer_summary nd = [] then card_text nd else offer_summary nd) @ [32] @ card_text nd"
    by (simp add: cian_context_txt_def cian_summary_txt_def ascii_def)
  have rule: "cian_detect_rent_period L txt =
     (if \<exists>m \<in> set cian_daily_markers. sublist m (str_lower L txt) then ''daily''
      else if \<exists>m \<in> set monthly_markers. sublist m (str_lower L txt) then ''monthly''
      else ''unknown'')"
    by (simp add: cian_detect_rent_period_def Let_def any_in_sublist)
  from cards ctx rule show ?thesis by blast
qed

text \<open>
  The first card is tagged monthly (its price text ends in "/mes."); the second, whose
  card text goes on with "posutochno", is tagged daily.
\<close>

theorem C4_cian_rent_period_witness:
  "cian_parse_cards ex_lib [ex_card, ex_card_daily] =
     [ex_cian_candidate, ex_cian_candidate\<lparr> rent_period_tag := Some ''daily'' \<rparr>] \<and>
   cian_detect_rent_period ex_lib (cian_context_txt ex_card) = ''monthly'' \<and>
   cian_detect_rent_period ex_lib (cian_context_txt ex_card_daily) = ''daily''"
  using C4_cian_rent_period [of ex_lib "[ex_card, ex_card_daily]" ex_card "cian_context_txt ex_card"]
  by (simp add: extract_defs ex_extract_defs)

text \<open>
  Claim C4 as stated fails for both extractors. The Avito offer "studiya 30 m2 na sutki"
  holds the daily marker "sutki" in its title, the only text the extractor has, and is
  tagged monthly: the tag is a literal, and the file's \<^verbatim>\<open>_detect_rent_period\<close>, which
  answers daily, is not called. The second CIAN card is tagged daily for a word that stands
  in the card's text and in none of title, summary and price text, over which the heuristic
  answers monthly.
\<close>

theorem C4_counterexample:
  "map rent_period_tag (avito_parse_from_jsonld ex_lib [ex_offer_daily]) = [Some ''monthly''] \<and>
   map title (avito_parse_from_jsonld ex_lib [ex_offer_daily]) = [Some ex_name_daily] \<and>
   avito_detect_rent_period ex_lib ex_name_daily = ''daily'' \<and>
   map rent_period_tag (cian_parse_cards ex_lib [ex_card_daily]) = [Some ''daily''] \<and>
   cian_detect_rent_period ex_lib
     (or_empty (title_node ex_card_daily) @ [32] @ cian_summary_txt ex_card_daily @ [32] @
      or_empty (price_node ex_card_daily)) = ''monthly''"
  by (simp add: extract_defs ex_extract_defs)


section \<open>Fetching\<close>

text \<open>Four failed attempts: three sleeps, then the error is raised again.\<close>

lemma retry_call_exhausted:
  assumes "\<forall>k. 1 \<le> k \<and> k \<le> 4 \<longrightarrow> attempt k = Inl FetchError"
  shows "retry_call 4 wt attempt st page 1 tr =
           (Inl FetchError,
            tr @ [Get st page 1, Sleep (wt 1), Get st page 2, Sleep (wt 2), Get st page 3,
                  Sleep (wt 3), Get st page 4])"
proof -
  have a: "attempt k = Inl FetchError" if "1 \<le> k" "k \<le> 4" for k
    using assms that by simp
  show ?thesis
    by (simp add: retry_call.simps a eval_nat_numeral)
qed

lemma cian_fetch_page_exhausted:
  assumes "\<forall>k. 1 \<le> k \<and> k \<le> 4 \<longrightarrow> cian_attempt L (cian_http W p k) = Inl FetchError"
  shows "cian_fetch_page L W p tr =
           (Inl FetchError,
            tr @ [Get Cian p 1, Sleep 1, Get Cian p 2, Sleep (8 / 5), Get Cian p 3,
                  Sleep (16 / 5), Get Cian p 4])"
  unfolding cian_fetch_page_def
  using retry_call_exhausted [of "\<lambda>k. cian_attempt L (cian_http W p k)", OF assms]
  by (simp add: wait_exponential_def)

lemma avito_fetch_page_exhausted:
  assumes "\<forall>k. 1 \<le> k \<and> k \<le> 4 \<longrightarrow> avito_attempt (avito_http W q k) = Inl FetchError"
  shows "avito_fetch_page W q tr =
           (Inl FetchError,
            tr @ [Get Avito q 1, Sleep 1, Get Avito q 2, Sleep (8 / 5), Get Avito q 3,
                  Sleep (16 / 5), Get Avito q 4])"
  unfolding avito_fetch_page_def
  using retry_call_exhausted [of "\<lambda>k. avito_attempt (avito_http W q k)", OF assms]
  by (simp add: wait_exponential_def)

lemma cian_pages_stop:
  assumes "cian_fetch_page L W p tr = (Inl e, tr1)" and "int p \<le> max 1 (cian_max_pages cfg)"
  shows "cian_pages L W cfg p out tr = (out, tr1)"
proof -
  have c: "\<not> max 1 (cian_max_pages cfg) < int p"
    using assms(2) by linarith
  show ?thesis
    by (subst cian_pages.simps) (simp only: if_not_P [OF c] assms(1) prod.case sum.case)
qed

lemma avito_pages_stop:
  assumes "avito_fetch_page W q tr = (Inl e, tr1)" and "int q \<le> max 1 (avito_max_pages W)"
  shows "avito_pages L W q items tr = (items, tr1)"
proof -
  have c: "\<not> max 1 (avito_max_pages W) < int q"
    using assms(2) by linarith
  show ?thesis
    by (subst avito_pages.simps) (simp only: if_not_P [OF c] assms(1) prod.case sum.case)
qed

lemma cian_normalize_Nil: "cian_normalize cfg [] = []"
  by (simp add: normalize_defs)

lemma avito_normalize_Nil: "avito_normalize cfg [] = []"
  by (simp add: normalize_defs)

lemma upsert_all_sum: "(case upsert_all db xs of Inl e \<Rightarrow> Inl e | Inr db1 \<Rightarrow> Inr db1) = upsert_all db xs"
  by (cases "upsert_all db xs") simp_all

text \<open>
  Claim C8. When the four attempts at a page all end in \<^verbatim>\<open>FetchError\<close>: \<^verbatim>\<open>_fetch_page\<close>
  sends four requests, sleeps 1, 1.6 and 3.2 seconds between them and raises the error; the
  page loop, whatever it has collected in \<open>out\<close>, sends no further request and returns
  \<open>out\<close>. When the loop of \<^verbatim>\<open>fetch_cian\<close> has come to that page with \<open>out\<close> collected,
  \<^verbatim>\<open>fetch_cian\<close> returns the normalised \<open>out\<close>, and \<^verbatim>\<open>job_scrape_city\<close> reconciles it and
  goes on to fetch Avito and to reconcile Avito's candidates. When the loop of
  \<^verbatim>\<open>fetch_avito\<close> has come to a page that fails so, the job has reconciled CIAN's
  candidates and reconciles what Avito's loop has collected.
\<close>

theorem C8_fetch_failure:
  "((\<forall>k. 1 \<le> k \<and> k \<le> 4 \<longrightarrow> cian_attempt L (cian_http W p k) = Inl FetchError) \<longrightarrow>
      cian_fetch_page L W p tr = (Inl FetchError, tr @ [Get Cian p 1, Sleep 1, Get Cian p 2, Sleep (8 / 5), Get Cian p 3,
                  Sleep (16 / 5), Get Cian p 4]) \<and>
      (int p \<le> max 1 (cian_max_pages cfg) \<longrightarrow>
         cian_pages L W cfg p out tr = (out, tr @ [Get Cian p 1, Sleep 1, Get Cian p 2, Sleep (8 / 5), Get Cian p 3,
                  Sleep (16 / 5), Get Cian p 4]) \<and>
         (cian_pages L W cfg 1 [] tr0 = cian_pages L W cfg p out tr \<longrightarrow>
            fetch_cian L W cfg tr0 = (cian_normalize cfg out, tr @ [Get Cian p 1, Sleep 1, Get Cian p 2, Sleep (8 / 5), Get Cian p 3,
                  Sleep (16 / 5), Get Cian p 4]) \<and>
            job_scrape_city L W cfg db tr0 =
              (case upsert_all db (cian_normalize cfg out) of
                 Inl e \<Rightarrow> (Inl e, tr @ [Get Cian p 1, Sleep 1, Get Cian p 2, Sleep (8 / 5), Get Cian p 3,
                  Sleep (16 / 5), Get Cian p 4])
               | Inr db1 \<Rightarrow>
                   (case fetch_avito L W cfg (tr @ [Get Cian p 1, Sleep 1, Get Cian p 2, Sleep (8 / 5), Get Cian p 3,
                  Sleep (16 / 5), Get Cian p 4]) of
                      (avito_items, tr2) \<Rightarrow> (upsert_all db1 avito_items, tr2)))))) \<and>
   ((\<forall>k. 1 \<le> k \<and> k \<le> 4 \<longrightarrow> avito_attempt (avito_http W q k) = Inl FetchError) \<longrightarrow>
      avito_fetch_page W q tr = (Inl FetchError, tr @ [Get Avito q 1, Sleep 1, Get Avito q 2, Sleep (8 / 5), Get Avito q 3,
                  Sleep (16 / 5), Get Avito q 4]) \<and>
      (int q \<le> max 1 (avito_max_pages W) \<longrightarrow>
         avito_pages L W q items tr = (items, tr @ [Get Avito q 1, Sleep 1, Get Avito q 2, Sleep (8 / 5), Get Avito q 3,
                  Sleep (16 / 5), Get Avito q 4]) \<and>
         (or_empty (avito_search_url W) \<noteq> [] \<longrightarrow>
          avito_pages L W 1 [] (snd (fetch_cian L W cfg tr0)) = avito_pages L W q items tr \<longrightarrow>
            fst (job_scrape_city L W cfg db tr0) =
              (case upsert_all db (fst (fetch_cian L W cfg tr0)) of
                 Inl e \<Rightarrow> Inl e
               | Inr db1 \<Rightarrow> upsert_all db1 (avito_normalize cfg items)))))"
proof -
  have cian: "cian_fetch_page L W p tr = (Inl FetchError, tr @ [Get Cian p 1, Sleep 1, Get Cian p 2, Sleep (8 / 5), Get Cian p 3,
                  Sleep (16 / 5), Get Cian p 4]) \<and>
      (int p \<le> max 1 (cian_max_pages cfg) \<longrightarrow>
         cian_pages L W cfg p out tr = (out, tr @ [Get Cian p 1, Sleep 1, Get Cian p 2, Sleep (8 / 5), Get Cian p 3,
                  Sleep (16 / 5), Get Cian p 4]) \<and>
         (cian_pages L W cfg 1 [] tr0 = cian_pages L W cfg p out tr \<longrightarrow>
            fetch_cian L W cfg tr0 = (cian_normalize cfg out, tr @ [Get Cian p 1, Sleep 1, Get Cian p 2, Sleep (8 / 5), Get Cian p 3,
                  Sleep (16 / 5), Get Cian p 4]) \<and>
            job_scrape_city L W cfg db tr0 =
              (case upsert_all db (cian_normalize cfg out) of
                 Inl e \<Rightarrow> (Inl e, tr @ [Get Cian p 1, Sleep 1, Get Cian p 2, Sleep (8 / 5), Get Cian p 3,
                  Sleep (16 / 5), Get Cian p 4])
               | Inr db1 \<Rightarrow>
                   (case fetch_avito L W cfg (tr @ [Get Cian p 1, Sleep 1, Get Cian p 2, Sleep (8 / 5), Get Cian p 3,
                  Sleep (16 / 5), Get Cian p 4]) of
                      (avito_items, tr2) \<Rightarrow> (upsert_all db1 avito_items, tr2)))))"
    if fail: "\<forall>k. 1 \<le> k \<and> k \<le> 4 \<longrightarrow> cian_attempt L (cian_http W p k) = Inl FetchError"
  proof (intro conjI impI)
    show page: "cian_fetch_page L W p tr = (Inl FetchError, tr @ [Get Cian p 1, Sleep 1, Get Cian p 2, Sleep (8 / 5), Get Cian p 3,
                  Sleep (16 / 5), Get Cian p 4])"
      by (rule cian_fetch_page_exhausted [OF fail])
    assume range: "int p \<le> max 1 (cian_max_pages cfg)"
    show loop: "cian_pages L W cfg p out tr = (out, tr @ [Get Cian p 1, Sleep 1, Get Cian p 2, Sleep (8 / 5), Get Cian p 3,
                  Sleep (16 / 5), Get Cian p 4])"
      by (rule cian_pages_stop [OF page range])
    assume reach: "cian_pages L W cfg 1 [] tr0 = cian_pages L W cfg p out tr"
    show fetched: "fetch_cian L W cfg tr0 = (cian_normalize cfg out, tr @ [Get Cian p 1, Sleep 1, Get Cian p 2, Sleep (8 / 5), Get Cian p 3,
                  Sleep (16 / 5), Get Cian p 4])"
      unfolding fetch_cian_def reach loop by simp
    show "job_scrape_city L W cfg db tr0 =
              (case upsert_all db (cian_normalize cfg out) of
                 Inl e \<Rightarrow> (Inl e, tr @ [Get Cian p 1, Sleep 1, Get Cian p 2, Sleep (8 / 5), Get Cian p 3,
                  Sleep (16 / 5), Get Cian p 4])
               | Inr db1 \<Rightarrow>
                   (case fetch_avito L W cfg (tr @ [Get Cian p 1, Sleep 1, Get Cian p 2, Sleep (8 / 5), Get Cian p 3,
                  Sleep (16 / 5), Get Cian p 4]) of
                      (avito_items, tr2) \<Rightarrow> (upsert_all db1 avito_items, tr2)))"
      unfolding job_scrape_city_def fetched by (simp only: prod.case)
  qed
  have avito: "avito_fetch_page W q tr = (Inl FetchError, tr @ [Get Avito q 1, Sleep 1, Get Avito q 2, Sleep (8 / 5), Get Avito q 3,
                  Sleep (16 / 5), Get Avito q 4]) \<and>
      (int q \<le> max 1 (avito_max_pages W) \<longrightarrow>
         avito_pages L W q items tr = (items, tr @ [Get Avito q 1, Sleep 1, Get Avito q 2, Sleep (8 / 5), Get Avito q 3,
                  Sleep (16 / 5), Get Avito q 4]) \<and>
         (or_empty (avito_search_url W) \<noteq> [] \<longrightarrow>
          avito_pages L W 1 [] (snd (fetch_cian L W cfg tr0)) = avito_pages L W q items tr \<longrightarrow>
            fst (job_scrape_city L W cfg db tr0) =
              (case upsert_all db (fst (fetch_cian L W cfg tr0)) of
                 Inl e \<Rightarrow> Inl e
               | Inr db1 \<Rightarrow> upsert_all db1 (avito_normalize cfg items))))"
    if fail: "\<forall>k. 1 \<le> k \<and> k \<le> 4 \<longrightarrow> avito_attempt (avito_http W q k) = Inl FetchError"
  proof (intro conjI impI)
    show page: "avito_fetch_page W q tr = (Inl FetchError, tr @ [Get Avito q 1, Sleep 1, Get Avito q 2, Sleep (8 / 5), Get Avito q 3,
                  Sleep (16 / 5), Get Avito q 4])"
      by (rule avito_fetch_page_exhausted [OF fail])
    assume range: "int q \<le> max 1 (avito_max_pages W)"
    show loop: "avito_pages L W q items tr = (items, tr @ [Get Avito q 1, Sleep 1, Get Avito q 2, Sleep (8 / 5), Get Avito q 3,
                  Sleep (16 / 5), Get Avito q 4])"
      by (rule avito_pages_stop [OF page range])
    assume base: "or_empty (avito_search_url W) \<noteq> []"
      and reach: "avito_pages L W 1 [] (snd (fetch_cian L W cfg tr0)) = avito_pages L W q items tr"
    obtain cian_items tr1 where c: "fetch_cian L W cfg tr0 = (cian_items, tr1)"
      by (cases "fetch_cian L W cfg tr0")
    have "avito_pages L W 1 [] tr1 = (items, tr @ [Get Avito q 1, Sleep 1, Get Avito q 2, Sleep (8 / 5), Get Avito q 3,
                  Sleep (16 / 5), Get Avito q 4])"
      using reach loop c by simp
    then have a: "fetch_avito L W cfg tr1 = (avito_normalize cfg items, tr @ [Get Avito q 1, Sleep 1, Get Avito q 2, Sleep (8 / 5), Get Avito q 3,
                  Sleep (16 / 5), Get Avito q 4])"
      unfolding fetch_avito_def using base by simp
    show "fst (job_scrape_city L W cfg db tr0) =
              (case upsert_all db (fst (fetch_cian L W cfg tr0)) of
                 Inl e \<Rightarrow> Inl e
               | Inr db1 \<Rightarrow> upsert_all db1 (avito_normalize cfg items))"
      unfolding job_scrape_city_def c
      by (cases "upsert_all db cian_items") (simp_all add: a)
  qed
  from cian avito show ?thesis
    by blast
qed


text \<open>The run of the job in the two example worlds, step by step.\<close>

lemma ex_body_accepted: "cian_attempt ex_lib (Response 200 ex_body) = Inr ex_body"
proof -
  have low: "str_lower ex_lib ex_body = ex_body"
    by (simp add: ex_lib_def ex_body_def lower_cp_def)
  have "\<not> any_in cian_anti_bot_markers ex_body"
    by (auto simp: any_in_sublist cian_anti_bot_markers_def ex_body_def dest!: set_mono_sublist)
  then show ?thesis
    by (simp add: cian_attempt_def low) (simp add: ex_body_def)
qed

lemma ex_403_refused: "cian_attempt ex_lib (Response 403 []) = Inl FetchError"
  by (simp add: cian_attempt_def any_in_def cian_anti_bot_markers_def ex_lib_def)

lemma ex_cian_http:
  assumes "W = ex_world \<or> W = ex_world_avito_down"
  shows "cian_http W 1 k = Response 200 ex_body" "p \<noteq> 1 \<Longrightarrow> cian_http W p k = Response 403 []"
    "cian_dom W ex_body = [ex_card, ex_card, ex_card, ex_card, ex_card]"
  using assms by (auto simp: ex_world_def ex_world_avito_down_def)

lemma ex_cian_page_1:
  assumes "W = ex_world \<or> W = ex_world_avito_down"
  shows "cian_pages ex_lib W default_settings 1 [] [] =
           cian_pages ex_lib W default_settings 2
             [ex_cian_candidate, ex_cian_candidate, ex_cian_candidate, ex_cian_candidate,
              ex_cian_candidate]
             [Get Cian 1 1, Sleep (6 / 5)]"
proof -
  have page: "cian_fetch_page ex_lib W 1 [] = (Inr ex_body, [Get Cian 1 1])"
    unfolding cian_fetch_page_def
    by (subst retry_call.simps)
       (simp only: ex_cian_http(1) [OF assms] ex_body_accepted sum.case append_Nil)
  have url: "has_url ex_cian_candidate"
    by (simp add: has_url_def ex_cian_candidate_def ascii_def)
  have items: "cian_parse_cards ex_lib (cian_dom W ex_body) =
                 [ex_cian_candidate, ex_cian_candidate, ex_cian_candidate, ex_cian_candidate,
                  ex_cian_candidate]"
    by (simp add: ex_cian_http(3) [OF assms] cian_parse_cards_def ex_cian_candidate_eval url)
  have pages: "\<not> int 1 > max 1 (cian_max_pages default_settings)"
    by (simp add: default_settings_def)
  show ?thesis
    by (subst cian_pages.simps)
       (simp only: if_not_P [OF pages] page items prod.case sum.case Let_def,
        simp add: default_settings_def numeral_2_eq_2)
qed

lemma ex_cian_page_2:
  assumes "W = ex_world \<or> W = ex_world_avito_down"
  shows "cian_pages ex_lib W default_settings 2 out tr =
           (out, tr @ [Get Cian 2 1, Sleep 1, Get Cian 2 2, Sleep (8 / 5), Get Cian 2 3,
                       Sleep (16 / 5), Get Cian 2 4])"
proof -
  have "\<forall>k. 1 \<le> k \<and> k \<le> 4 \<longrightarrow> cian_attempt ex_lib (cian_http W 2 k) = Inl FetchError"
    by (simp add: ex_cian_http(2) [OF assms] ex_403_refused)
  from cian_fetch_page_exhausted [OF this] show ?thesis
    by (rule cian_pages_stop) (simp add: default_settings_def)
qed

lemma ex_cian_normalize:
  "cian_normalize default_settings
     [ex_cian_candidate, ex_cian_candidate, ex_cian_candidate, ex_cian_candidate,
      ex_cian_candidate] = [pop_tags ex_cian_candidate]"
  by (simp add: normalize_defs default_settings_def ex_cian_candidate_def ascii_def)

lemma ex_fetch_cian:
  assumes "W = ex_world \<or> W = ex_world_avito_down"
  shows "fetch_cian ex_lib W default_settings [] =
           ([pop_tags ex_cian_candidate],
            [Get Cian 1 1, Sleep (6 / 5), Get Cian 2 1, Sleep 1, Get Cian 2 2, Sleep (8 / 5),
             Get Cian 2 3, Sleep (16 / 5), Get Cian 2 4])"
  unfolding fetch_cian_def ex_cian_page_1 [OF assms] ex_cian_page_2 [OF assms]
  by (simp add: ex_cian_normalize)

lemma ex_fetch_avito:
  "fetch_avito ex_lib ex_world default_settings tr =
     ([pop_tags ex_avito_candidate], tr @ [Get Avito 1 1])"
proof -
  have page: "avito_fetch_page ex_world 1 tr = (Inr [], tr @ [Get Avito 1 1])"
    unfolding avito_fetch_page_def
    by (subst retry_call.simps) (simp add: ex_world_def avito_attempt_def)
  have items: "avito_page_items ex_lib (avito_jsonld ex_world []) = [ex_avito_candidate]"
    by (simp add: avito_page_items_def avito_parse_from_jsonld_def List.map_filter_def
        ex_avito_candidate_eval ex_world_def avito_parse_cards_def)
       (simp add: has_url_def ex_avito_candidate_def ex_avito_url_def ascii_def)
  have pages: "\<not> int 1 > max 1 (avito_max_pages ex_world)"
    by (simp add: ex_world_def)
  have loop: "avito_pages ex_lib ex_world 1 [] tr = ([ex_avito_candidate], tr @ [Get Avito 1 1])"
    by (subst avito_pages.simps)
       (simp only: if_not_P [OF pages] page items prod.case sum.case Let_def, simp)
  have norm: "avito_normalize default_settings [ex_avito_candidate] = [pop_tags ex_avito_candidate]"
    by (simp add: normalize_defs default_settings_def ex_avito_candidate_def ex_avito_url_def
        ascii_def)
  show ?thesis
    unfolding fetch_avito_def loop
    by (simp add: norm) (simp add: ex_world_def or_empty_def ascii_def)
qed

lemma ex_upsert_cian:
  "upsert_all empty_store [pop_tags ex_cian_candidate] = Inr ex_store_after_cian"
  by (simp add: upsert_defs empty_store_def ex_store_after_cian_def pop_tags_def
      ex_cian_candidate_def)

lemma ex_upsert_avito:
  "upsert_all ex_store_after_cian [pop_tags ex_avito_candidate] = Inr ex_store_after_run"
  by (simp add: upsert_defs ex_store_after_cian_def ex_store_after_run_def pop_tags_def
      ex_cian_candidate_def ex_avito_candidate_def ascii_def)

lemma ex_job:
  "job_scrape_city ex_lib ex_world default_settings empty_store [] =
     (Inr ex_store_after_run,
      [Get Cian 1 1, Sleep (6 / 5), Get Cian 2 1, Sleep 1, Get Cian 2 2, Sleep (8 / 5),
       Get Cian 2 3, Sleep (16 / 5), Get Cian 2 4, Get Avito 1 1])"
  unfolding job_scrape_city_def
  by (simp only: ex_fetch_cian [OF disjI1 [OF refl]] ex_fetch_avito ex_upsert_cian
      ex_upsert_avito prod.case sum.case append.simps)

text \<open>
  In the first world CIAN's second page is refused four times: the loop returns the
  candidate of the first page, and the job reconciles it and Avito's candidate. In the
  second world Avito is refused as well, and the job still reconciles CIAN's candidate.
\<close>

theorem C8_fetch_failure_witness:
  "cian_attempt ex_lib (cian_http ex_world 2 1) = Inl FetchError \<and>
   cian_attempt ex_lib (cian_http ex_world 2 4) = Inl FetchError \<and>
   avito_attempt (avito_http ex_world_avito_down 1 1) = Inl FetchError \<and>
   avito_attempt (avito_http ex_world_avito_down 1 4) = Inl FetchError \<and>
   cian_pages ex_lib ex_world default_settings 1 [] [] =
     cian_pages ex_lib ex_world default_settings 2
       [ex_cian_candidate, ex_cian_candidate, ex_cian_candidate, ex_cian_candidate,
      ex_cian_candidate]
       [Get Cian 1 1, Sleep (6 / 5)] \<and>
   cian_pages ex_lib ex_world default_settings 2
       [ex_cian_candidate, ex_cian_candidate, ex_cian_candidate, ex_cian_candidate,
      ex_cian_candidate]
       [Get Cian 1 1, Sleep (6 / 5)] =
     ([ex_cian_candidate, ex_cian_candidate, ex_cian_candidate, ex_cian_candidate,
      ex_cian_candidate],
      [Get Cian 1 1, Sleep (6 / 5), Get Cian 2 1, Sleep 1, Get Cian 2 2, Sleep (8 / 5),
       Get Cian 2 3, Sleep (16 / 5), Get Cian 2 4]) \<and>
   fetch_cian ex_lib ex_world default_settings [] =
     ([pop_tags ex_cian_candidate],
      [Get Cian 1 1, Sleep (6 / 5), Get Cian 2 1, Sleep 1, Get Cian 2 2, Sleep (8 / 5),
       Get Cian 2 3, Sleep (16 / 5), Get Cian 2 4]) \<and>
   job_scrape_city ex_lib ex_world default_settings empty_store [] =
     (Inr ex_store_after_run,
      [Get Cian 1 1, Sleep (6 / 5), Get Cian 2 1, Sleep 1, Get Cian 2 2, Sleep (8 / 5),
       Get Cian 2 3, Sleep (16 / 5), Get Cian 2 4, Get Avito 1 1]) \<and>
   map l_source (listings ex_store_after_run) = [ascii ''cian'', ascii ''avito''] \<and>
   fst (job_scrape_city ex_lib ex_world_avito_down default_settings empty_store []) =
     Inr ex_store_after_cian"
proof -
  have c: "\<forall>k. 1 \<le> k \<and> k \<le> 4 \<longrightarrow> cian_attempt ex_lib (cian_http ex_world 2 k) = Inl FetchError"
    by (simp add: ex_world_def ex_403_refused)
  have a: "\<forall>k. 1 \<le> k \<and> k \<le> 4 \<longrightarrow>
             avito_attempt (avito_http ex_world_avito_down 1 k) = Inl FetchError"
    by (simp add: ex_world_def ex_world_avito_down_def avito_attempt_def)
  have c_range: "int 2 \<le> max 1 (cian_max_pages default_settings)"
    by (simp add: default_settings_def)
  have a_range: "int 1 \<le> max 1 (avito_max_pages ex_world_avito_down)"
    by simp
  have base: "or_empty (avito_search_url ex_world_avito_down) \<noteq> []"
    by (simp add: ex_world_avito_down_def ex_world_def or_empty_def ascii_def)
  note reach = ex_cian_page_1 [OF disjI1 [OF refl]]
  note thm1 = C8_fetch_failure [where L = ex_lib and W = ex_world and p = 2
      and tr = "[Get Cian 1 1, Sleep (6 / 5)]" and cfg = default_settings
      and out = "[ex_cian_candidate, ex_cian_candidate, ex_cian_candidate, ex_cian_candidate,
      ex_cian_candidate]"
      and ?tr0.0 = "[]" and db = empty_store and q = 1 and items = "[]"]
  note thm2 = C8_fetch_failure [where L = ex_lib and W = ex_world_avito_down and p = 2
      and tr = "snd (fetch_cian ex_lib ex_world_avito_down default_settings [])"
      and cfg = default_settings and out = "[]" and ?tr0.0 = "[]" and db = empty_store
      and q = 1 and items = "[]"]
  from thm1 c c_range reach
  have loop: "cian_pages ex_lib ex_world default_settings 2
       [ex_cian_candidate, ex_cian_candidate, ex_cian_candidate, ex_cian_candidate,
      ex_cian_candidate]
       [Get Cian 1 1, Sleep (6 / 5)] =
     ([ex_cian_candidate, ex_cian_candidate, ex_cian_candidate, ex_cian_candidate,
      ex_cian_candidate],
      [Get Cian 1 1, Sleep (6 / 5), Get Cian 2 1, Sleep 1, Get Cian 2 2, Sleep (8 / 5),
       Get Cian 2 3, Sleep (16 / 5), Get Cian 2 4])"
    and fetched: "fetch_cian ex_lib ex_world default_settings [] =
     (cian_normalize default_settings
        [ex_cian_candidate, ex_cian_candidate, ex_cian_candidate, ex_cian_candidate,
      ex_cian_candidate],
      [Get Cian 1 1, Sleep (6 / 5), Get Cian 2 1, Sleep 1, Get Cian 2 2, Sleep (8 / 5),
       Get Cian 2 3, Sleep (16 / 5), Get Cian 2 4])"
    by simp_all
  from thm2 a a_range base
  have "fst (job_scrape_city ex_lib ex_world_avito_down default_settings empty_store []) =
          (case upsert_all empty_store
                  (fst (fetch_cian ex_lib ex_world_avito_down default_settings [])) of
             Inl e \<Rightarrow> Inl e
           | Inr db1 \<Rightarrow> upsert_all db1 (avito_normalize default_settings []))"
    by blast
  then have down: "fst (job_scrape_city ex_lib ex_world_avito_down default_settings empty_store []) =
                Inr ex_store_after_cian"
    by (simp only: ex_fetch_cian [OF disjI2 [OF refl]] ex_upsert_cian fst_conv sum.case
        avito_normalize_Nil upsert_all.simps(1))
  have src: "map l_source (listings ex_store_after_run) = [ascii ''cian'', ascii ''avito'']"
    by (simp add: ex_store_after_run_def new_listing_def pop_tags_def ex_cian_candidate_def
        ex_avito_candidate_def)
  from c a reach loop fetched down src ex_job show ?thesis
    by (simp add: ex_cian_normalize)
qed


section \<open>Candidates without an external id\<close>

text \<open>What holds of the collected items and of every parsed page holds of the loop's result.\<close>

lemma cian_pages_pred:
  "(\<forall>c \<in> set out. P c) \<Longrightarrow> (\<forall>html. \<forall>c \<in> set (cian_parse_cards L (cian_dom W html)). P c) \<Longrightarrow>
     \<forall>c \<in> set (fst (cian_pages L W cfg p out tr)). P c"
proof (induction L W cfg p out tr rule: cian_pages.induct)
  case (1 L W cfg p out tr)
  show ?case
  proof (cases "int p > max 1 (cian_max_pages cfg)")
    case True
    show ?thesis
      using "1.prems"(1) by (subst cian_pages.simps) (simp only: if_P [OF True] fst_conv)
  next
    case False
    obtain r tr1 where page: "cian_fetch_page L W p tr = (r, tr1)"
      by (cases "cian_fetch_page L W p tr")
    show ?thesis
    proof (cases r)
      case (Inl e)
      show ?thesis
        using "1.prems"(1)
        by (subst cian_pages.simps)
           (simp only: if_not_P [OF False] page Inl prod.case sum.case fst_conv)
    next
      case (Inr html)
      let ?items = "cian_parse_cards L (cian_dom W html)"
      have all: "\<forall>c \<in> set (out @ ?items). P c"
        using "1.prems" by auto
      show ?thesis
      proof (cases "length ?items < 5")
        case True
        show ?thesis
          using all
          by (subst cian_pages.simps)
             (simp only: if_not_P [OF False] page Inr prod.case sum.case Let_def if_P [OF True]
                fst_conv)
      next
        case few: False
        have "\<forall>c \<in> set (fst (cian_pages L W cfg (Suc p) (out @ ?items)
                 (tr1 @ [Sleep (real_of_int (cian_rate_limit_ms cfg) / 1000)]))). P c"
          using "1.IH" [OF False page [symmetric] Inr refl few all "1.prems"(2)] .
        then show ?thesis
          by (subst cian_pages.simps)
             (simp only: if_not_P [OF False] page Inr prod.case sum.case Let_def if_not_P [OF few])
      qed
    qed
  qed
qed

lemma avito_pages_pred:
  "(\<forall>c \<in> set items. P c) \<Longrightarrow>
   (\<forall>html. \<forall>c \<in> set (avito_page_items L (avito_jsonld W html)). P c) \<Longrightarrow>
     \<forall>c \<in> set (fst (avito_pages L W p items tr)). P c"
proof (induction L W p items tr rule: avito_pages.induct)
  case (1 L W p items tr)
  show ?case
  proof (cases "int p > max 1 (avito_max_pages W)")
    case True
    show ?thesis
      using "1.prems"(1) by (subst avito_pages.simps) (simp only: if_P [OF True] fst_conv)
  next
    case False
    obtain r tr1 where page: "avito_fetch_page W p tr = (r, tr1)"
      by (cases "avito_fetch_page W p tr")
    show ?thesis
    proof (cases r)
      case (Inl e)
      show ?thesis
        using "1.prems"(1)
        by (subst avito_pages.simps)
           (simp only: if_not_P [OF False] page Inl prod.case sum.case fst_conv)
    next
      case (Inr html)
      let ?items = "avito_page_items L (avito_jsonld W html)"
      have all: "\<forall>c \<in> set (items @ ?items). P c"
        using "1.prems" by auto
      show ?thesis
      proof (cases "length ?items < 5")
        case True
        show ?thesis
          using all
          by (subst avito_pages.simps)
             (simp only: if_not_P [OF False] page Inr prod.case sum.case Let_def if_P [OF True]
                fst_conv)
      next
        case few: False
        have "\<forall>c \<in> set (fst (avito_pages L W (Suc p) (items @ ?items)
                 (tr1 @ [Sleep (real_of_int (avito_rate_limit_ms W) / 1000)]))). P c"
          using "1.IH" [OF False page [symmetric] Inr refl few all "1.prems"(2)] .
        then show ?thesis
          by (subst avito_pages.simps)
             (simp only: if_not_P [OF False] page Inr prod.case sum.case Let_def if_not_P [OF few])
      qed
    qed
  qed
qed

lemma has_url_pop_tags: "has_url (pop_tags c) = has_url c"
  by (simp add: has_url_def pop_tags_def)

lemma cian_normalize_subset: "set (cian_normalize cfg out) \<subseteq> pop_tags ` set out"
proof -
  have "set (dedup out) \<subseteq> set out"
    by (simp add: dedup_def dedup_loop_set)
  then show ?thesis
    unfolding cian_normalize_eq
    by (auto simp: cian_numeric_filter_def cian_long_rent_filter_def)
qed

lemma avito_normalize_subset: "set (avito_normalize cfg items) \<subseteq> pop_tags ` set items"
proof -
  have "set (dedup items) \<subseteq> set items"
    by (simp add: dedup_def dedup_loop_set)
  then show ?thesis
    by (auto simp: avito_normalize_def avito_filtered_def avito_numeric_filter_def
        rooms_filter_def avito_long_rent_filter_def)
qed

lemma fetch_cian_has_url: "c \<in> set (fst (fetch_cian L W cfg tr)) \<Longrightarrow> has_url c"
proof -
  assume mem: "c \<in> set (fst (fetch_cian L W cfg tr))"
  have "\<forall>c \<in> set (fst (cian_pages L W cfg 1 [] tr)). has_url c"
    by (rule cian_pages_pred) (simp_all add: cian_parse_cards_def)
  moreover have "c \<in> pop_tags ` set (fst (cian_pages L W cfg 1 [] tr))"
    using mem cian_normalize_subset [of cfg "fst (cian_pages L W cfg 1 [] tr)"]
    by (auto simp: fetch_cian_def split: prod.splits)
  ultimately show ?thesis
    by (auto simp: has_url_pop_tags)
qed

lemma fetch_avito_has_url: "c \<in> set (fst (fetch_avito L W cfg tr)) \<Longrightarrow> has_url c"
proof -
  assume mem: "c \<in> set (fst (fetch_avito L W cfg tr))"
  have "\<forall>c \<in> set (fst (avito_pages L W 1 [] tr)). has_url c"
    by (rule avito_pages_pred)
       (simp_all add: avito_page_items_def avito_parse_from_jsonld_def avito_parse_cards_def Let_def)
  moreover have "c \<in> pop_tags ` set (fst (avito_pages L W 1 [] tr))"
    using mem avito_normalize_subset [of cfg "fst (avito_pages L W 1 [] tr)"]
    by (auto simp: fetch_avito_def split: prod.splits if_splits)
  ultimately show ?thesis
    by (auto simp: has_url_pop_tags)
qed

text \<open>What the extractors and the filters keep.\<close>

lemma cian_candidate_has_url:
  "has_url (cian_card_candidate L nd) \<longleftrightarrow> or_empty (link_href nd) \<noteq> []"
  by (simp add: cian_card_candidate_def Let_def has_url_def cian_url_def or_empty_def
      split: option.splits)

lemma avito_candidate_Some:
  "(\<exists>c. avito_offer_candidate L off = Some c) \<longleftrightarrow>
     or_empty (off_url off) \<noteq> [] \<and> or_empty (off_name off) \<noteq> []"
  by (simp add: avito_offer_candidate_def Let_def)

lemma avito_candidate_has_url: "avito_offer_candidate L off = Some c \<Longrightarrow> has_url c"
  by (auto simp: avito_offer_candidate_def Let_def has_url_def or_empty_def
      split: if_splits option.splits)

lemma set_map_filter_Some: "set (List.map_filter f xs) = {y. \<exists>x \<in> set xs. f x = Some y}"
  by (induction xs) (auto simp: List.map_filter_simps split: option.splits)

lemma set_avito_parse:
  "set (avito_parse_from_jsonld L offers) =
     {c. \<exists>off \<in> set offers. avito_offer_candidate L off = Some c}"
  by (auto simp: avito_parse_from_jsonld_def set_map_filter_Some avito_candidate_has_url)

lemma dedup_mem_iff:
  "x \<in> set (dedup out) \<longleftrightarrow> find (\<lambda>z. dedup_key z = dedup_key x) out = Some x"
proof
  assume "x \<in> set (dedup out)"
  then show "find (\<lambda>z. dedup_key z = dedup_key x) out = Some x"
    by (simp add: dedup_def dedup_loop_first)
next
  assume first: "find (\<lambda>z. dedup_key z = dedup_key x) out = Some x"
  then have "x \<in> set out"
    by (auto simp: find_Some_iff)
  then have "dedup_key x \<in> dedup_key ` set (dedup out)"
    by (simp add: dedup_def dedup_loop_keys)
  then obtain y where y: "y \<in> set (dedup out)" and key: "dedup_key y = dedup_key x"
    by auto
  from y have "find (\<lambda>z. dedup_key z = dedup_key y) out = Some y"
    by (simp add: dedup_def dedup_loop_first)
  then have "find (\<lambda>z. dedup_key z = dedup_key x) out = Some y"
    by (simp only: key)
  with first have "y = x"
    by simp
  with y show "x \<in> set (dedup out)"
    by simp
qed

lemma set_cian_normalize:
  "set (cian_normalize cfg out) =
     pop_tags ` {x \<in> set (dedup out).
        (cian_deal_type cfg = ascii ''rent'' \<and> cian_rent_long_only cfg \<longrightarrow>
           rent_period_tag x \<noteq> Some ''daily'') \<and>
        area_ok cfg x \<and> cian_price_ok cfg x}"
  unfolding cian_normalize_eq
  by (auto simp: cian_numeric_filter_def cian_long_rent_filter_def not_daily_def)

lemma set_avito_normalize:
  "set (avito_normalize cfg out) =
     pop_tags ` {x \<in> set (dedup out).
        (cian_rent_long_only cfg \<longrightarrow> rent_period_tag x \<noteq> Some ''daily'') \<and>
        (cian_exclude_rooms cfg \<longrightarrow> is_room_tag x \<noteq> Some True) \<and>
        area_ok cfg x \<and> avito_price_ok cfg x}"
  by (auto simp: avito_normalize_def avito_filtered_def avito_numeric_filter_def rooms_filter_def
      avito_long_rent_filter_def not_daily_def not_is_room_def split: option.splits)

text \<open>
  Claim C9, as the code has it. The extractors drop the candidates without a URL, so every
  candidate that \<^verbatim>\<open>job_scrape_city\<close> hands to \<^verbatim>\<open>upsert_listing\<close> has one. No step looks at
  the external id: a candidate without one is looked up among the stored listings of its
  source that have none and, when there is no such listing, is inserted with an absent
  external id. What is kept is this: \<^verbatim>\<open>_parse_cards\<close> keeps the candidates of exactly the
  cards whose link has an address that is not empty; \<^verbatim>\<open>_parse_from_jsonld\<close> keeps the
  candidates of exactly the offers whose URL and name are not empty; the dedup keeps a
  candidate exactly when it is the first of the input with its pair (external id, URL),
  an absent id being a value like any other; and the filters keep the deduplicated
  candidates that pass the tests on the rental period, the room tag, the area and the
  price, none of which reads the external id.
\<close>

theorem C9_url_required:
  "(\<forall>c \<in> set (cian_parse_cards L nodes). has_url c) \<and>
   (\<forall>c \<in> set (avito_parse_from_jsonld L offers). has_url c) \<and>
   (\<forall>c \<in> set (fst (fetch_cian L W cfg tr)). has_url c) \<and>
   (\<forall>c \<in> set (fst (fetch_avito L W cfg tr)). has_url c) \<and>
   (external_id p = None \<longrightarrow> is_room_tag p = None \<longrightarrow> rent_period_tag p = None \<longrightarrow>
    select_listing db (source p) None = [] \<longrightarrow>
      (\<exists>obj. upsert_listing db p =
                Inr \<lparr> listings = listings db @ [obj],
                      snapshots = snapshots db @ [snapshot_of obj],
                      next_id = Suc (next_id db) \<rparr> \<and>
              l_source obj = source p \<and> l_external_id obj = None \<and> l_url obj = url p)) \<and>
   set (cian_parse_cards L nodes) =
     {c \<in> cian_card_candidate L ` set nodes. has_url c} \<and>
   (has_url (cian_card_candidate L nd) \<longleftrightarrow> or_empty (link_href nd) \<noteq> []) \<and>
   set (avito_parse_from_jsonld L offers) =
     {c. \<exists>off \<in> set offers. avito_offer_candidate L off = Some c} \<and>
   ((\<exists>c. avito_offer_candidate L off = Some c) \<longleftrightarrow>
      or_empty (off_url off) \<noteq> [] \<and> or_empty (off_name off) \<noteq> []) \<and>
   (x \<in> set (dedup out) \<longleftrightarrow> find (\<lambda>z. dedup_key z = dedup_key x) out = Some x) \<and>
   set (cian_normalize cfg out) =
     pop_tags ` {x \<in> set (dedup out).
        (cian_deal_type cfg = ascii ''rent'' \<and> cian_rent_long_only cfg \<longrightarrow>
           rent_period_tag x \<noteq> Some ''daily'') \<and>
        area_ok cfg x \<and> cian_price_ok cfg x} \<and>
   set (avito_normalize cfg out) =
     pop_tags ` {x \<in> set (dedup out).
        (cian_rent_long_only cfg \<longrightarrow> rent_period_tag x \<noteq> Some ''daily'') \<and>
        (cian_exclude_rooms cfg \<longrightarrow> is_room_tag x \<noteq> Some True) \<and>
        area_ok cfg x \<and> avito_price_ok cfg x}"
proof -
  have c1: "\<forall>c \<in> set (cian_parse_cards L nodes). has_url c"
    by (simp add: cian_parse_cards_def)
  have c2: "\<forall>c \<in> set (avito_parse_from_jsonld L offers). has_url c"
    by (simp add: avito_parse_from_jsonld_def)
  have c3: "\<forall>c \<in> set (fst (fetch_cian L W cfg tr)). has_url c"
    using fetch_cian_has_url by blast
  have c4: "\<forall>c \<in> set (fst (fetch_avito L W cfg tr)). has_url c"
    using fetch_avito_has_url by blast
  have c5: "(external_id p = None \<longrightarrow> is_room_tag p = None \<longrightarrow> rent_period_tag p = None \<longrightarrow>
    select_listing db (source p) None = [] \<longrightarrow>
      (\<exists>obj. upsert_listing db p =
                Inr \<lparr> listings = listings db @ [obj],
                      snapshots = snapshots db @ [snapshot_of obj],
                      next_id = Suc (next_id db) \<rparr> \<and>
              l_source obj = source p \<and> l_external_id obj = None \<and> l_url obj = url p))"
  proof (intro impI)
    assume none: "external_id p = None" and tags: "is_room_tag p = None" "rent_period_tag p = None"
      and absent: "select_listing db (source p) None = []"
    let ?obj = "if truthy_real (area_m2 p) \<and> truthy_int (price_rub p)
                then (new_listing (next_id db) p)
                       \<lparr> l_price_per_m2 := Some (real_of_int (the (price_rub p)) / the (area_m2 p)) \<rparr>
                else new_listing (next_id db) p"
    have "upsert_listing db p =
            Inr \<lparr> listings = listings db @ [?obj], snapshots = snapshots db @ [snapshot_of ?obj],
                  next_id = Suc (next_id db) \<rparr>"
      using upsert_absent [of db p] none tags absent by (simp add: Let_def)
    then show "\<exists>obj. upsert_listing db p =
                  Inr \<lparr> listings = listings db @ [obj],
                        snapshots = snapshots db @ [snapshot_of obj],
                        next_id = Suc (next_id db) \<rparr> \<and>
                l_source obj = source p \<and> l_external_id obj = None \<and> l_url obj = url p"
      using none by (intro exI [of _ ?obj]) (simp add: new_listing_def)
  qed
  have c6: "set (cian_parse_cards L nodes) =
              {c \<in> cian_card_candidate L ` set nodes. has_url c}"
    by (auto simp: cian_parse_cards_def)
  note c7 = cian_candidate_has_url [of L nd]
  note c8 = set_avito_parse [of L offers]
  note c9 = avito_candidate_Some [of L off]
  note c10 = dedup_mem_iff [of x out]
  note c11 = set_cian_normalize [of cfg out]
  note c12 = set_avito_normalize [of cfg out]
  show ?thesis
    by (intro conjI) (rule c1 c2 c3 c4 c5 c6 c7 c8 c9 c10 c11 c12)+
qed

text \<open>
  The first example card has a URL and no external id. Its candidate is returned by
  \<^verbatim>\<open>_parse_cards\<close>, is kept by the dedup and the filters, is returned by \<^verbatim>\<open>fetch_cian\<close> and
  is inserted into the empty store.
\<close>

theorem C9_url_required_witness:
  "cian_parse_cards ex_lib [ex_card] = [ex_cian_candidate] \<and> has_url ex_cian_candidate \<and>
   fst (fetch_cian ex_lib ex_world default_settings []) = [pop_tags ex_cian_candidate] \<and>
   external_id (pop_tags ex_cian_candidate) = None \<and>
   is_room_tag (pop_tags ex_cian_candidate) = None \<and>
   rent_period_tag (pop_tags ex_cian_candidate) = None \<and>
   select_listing empty_store (source (pop_tags ex_cian_candidate)) None = [] \<and>
   upsert_listing empty_store (pop_tags ex_cian_candidate) = Inr ex_store_after_cian \<and>
   map l_external_id (listings ex_store_after_cian) = [None] \<and>
   or_empty (link_href ex_card) \<noteq> [] \<and>
   dedup [ex_cian_candidate] = [ex_cian_candidate] \<and>
   cian_normalize default_settings [ex_cian_candidate] = [pop_tags ex_cian_candidate] \<and>
   avito_normalize default_settings [ex_cian_candidate] = [pop_tags ex_cian_candidate]"
proof -
  have url: "has_url ex_cian_candidate"
    by (simp add: has_url_def ex_cian_candidate_def ascii_def)
  have parsed: "cian_parse_cards ex_lib [ex_card] = [ex_cian_candidate]"
    by (simp add: cian_parse_cards_def ex_cian_candidate_eval url)
  have stored: "upsert_listing empty_store (pop_tags ex_cian_candidate) = Inr ex_store_after_cian"
    using ex_upsert_cian by (simp split: sum.splits)
  have rest: "external_id (pop_tags ex_cian_candidate) = None \<and>
   is_room_tag (pop_tags ex_cian_candidate) = None \<and>
   rent_period_tag (pop_tags ex_cian_candidate) = None \<and>
   select_listing empty_store (source (pop_tags ex_cian_candidate)) None = [] \<and>
   map l_external_id (listings ex_store_after_cian) = [None]"
    by (simp add: pop_tags_def ex_cian_candidate_def select_listing_def empty_store_def
        ex_store_after_cian_def new_listing_def)
  have href: "or_empty (link_href ex_card) \<noteq> []"
    by (simp add: ex_card_def or_empty_def ascii_def)
  have kept: "dedup [ex_cian_candidate] = [ex_cian_candidate] \<and>
   cian_normalize default_settings [ex_cian_candidate] = [pop_tags ex_cian_candidate] \<and>
   avito_normalize default_settings [ex_cian_candidate] = [pop_tags ex_cian_candidate]"
    by (simp add: normalize_defs default_settings_def ex_cian_candidate_def ascii_def)
  note inst = C9_url_required [where L = ex_lib and nodes = "[ex_card]" and offers = "[]"
      and W = ex_world and cfg = default_settings and tr = "[]"
      and p = "pop_tags ex_cian_candidate" and db = empty_store and nd = ex_card
      and off = ex_offer_flat and x = ex_cian_candidate and out = "[ex_cian_candidate]"]
  from inst [THEN conjunct1] url parsed stored rest href kept ex_fetch_cian [of ex_world]
  show ?thesis
    by simp
qed

text \<open>
  Claim C9 as stated fails: the candidate of the first example card has no external id,
  is handed to \<^verbatim>\<open>upsert_listing\<close> by the job and is stored.
\<close>

theorem C9_counterexample:
  "external_id ex_cian_candidate = None \<and>
   cian_parse_cards ex_lib [ex_card] = [ex_cian_candidate] \<and>
   fst (fetch_cian ex_lib ex_world default_settings []) = [pop_tags ex_cian_candidate] \<and>
   fst (job_scrape_city ex_lib ex_world default_settings empty_store []) = Inr ex_store_after_run \<and>
   map l_external_id (listings ex_store_after_run) = [None, Some (ascii ''123'')]"
proof -
  have url: "has_url ex_cian_candidate"
    by (simp add: has_url_def ex_cian_candidate_def ascii_def)
  have parsed: "cian_parse_cards ex_lib [ex_card] = [ex_cian_candidate]"
    by (simp add: cian_parse_cards_def ex_cian_candidate_eval url)
  have ids: "external_id ex_cian_candidate = None \<and>
             map l_external_id (listings ex_store_after_run) = [None, Some (ascii ''123'')]"
    by (simp add: ex_store_after_run_def new_listing_def pop_tags_def ex_cian_candidate_def
        ex_avito_candidate_def)
  from parsed ids ex_fetch_cian [of ex_world] ex_job show ?thesis
    by simp
qed


section \<open>Triggers\<close>

text \<open>
  The interval trigger alone never has two runs in flight: a firing that finds the job
  running is skipped.
\<close>

lemma scheduled_active_le_1:
  "scheduled_active r \<le> 1 \<Longrightarrow> scheduled_active (foldl step r ts) \<le> 1"
proof (induction ts arbitrary: r)
  case Nil
  then show ?case by simp
next
  case (Cons t ts)
  have "scheduled_active (step r t) \<le> 1"
    using Cons.prems by (cases t) (simp_all add: max_instances_def)
  then show ?case
    using Cons.IH by simp
qed

lemma interval_only_single_flight:
  "PostScrapeCian \<notin> set ts \<Longrightarrow> background_active r = 0 \<Longrightarrow> scheduled_active r \<le> 1 \<Longrightarrow>
     in_flight (foldl step r ts) \<le> 1"
proof (induction ts arbitrary: r)
  case Nil
  then show ?case by (simp add: in_flight_def)
next
  case (Cons t ts)
  have "background_active (step r t) = 0" "scheduled_active (step r t) \<le> 1"
    using Cons.prems by (cases t; simp add: max_instances_def)+
  then show ?case
    using Cons.IH Cons.prems(1) by simp
qed

text \<open>
  Claim C10 at a failing input: the interval fires (at startup, \<^verbatim>\<open>next_run_time\<close> is now)
  and, before that run ends, \<^verbatim>\<open>POST /jobs/scrape/cian\<close> arrives. Two runs are in flight.
  Two requests in a row give two runs as well; two firings of the interval give one.
\<close>

theorem C10_overlapping_runs:
  "in_flight (run_triggers [IntervalFires, PostScrapeCian]) = 2 \<and>
   in_flight (run_triggers [PostScrapeCian, PostScrapeCian]) = 2 \<and>
   in_flight (run_triggers [IntervalFires, IntervalFires]) = 1"
  by (simp add: run_triggers_def after_startup_def in_flight_def max_instances_def)


end
